theory Spec2Isabelle
  imports Complex_Main
begin

section \<open>Data model\<close>

text \<open>
  The rent-payment routes of the backend (\<^verbatim>\<open>routes/payments.js\<close>, the Equity Bank webhook in
  \<^verbatim>\<open>routes/houses.js\<close> and the callback of the M-Pesa STK routes) are embedded as functions on
  an explicit payment collection.

  \<^item> The collection is a list in insertion order: \<^verbatim>\<open>findOne(q)\<close> returns the first document
    matching \<^verbatim>\<open>q\<close>, \<^verbatim>\<open>findOne(q).sort({createdAt: -1})\<close> the last one, \<^verbatim>\<open>countDocuments()\<close> the
    length, and \<^verbatim>\<open>save()\<close> of a new document appends it. The \<^verbatim>\<open>_id\<close> of a document, \<open>pid\<close>, is the
    position at which it was inserted.
  \<^item> Amounts are JavaScript numbers; they are modelled as exact rationals. A request field
    that may be absent is an \<open>option\<close>; \<open>None\<close> is \<^verbatim>\<open>undefined\<close>.
    The section on JSON request bodies repeats the ingestion handlers for fields of any
    JSON type.
  \<^item> The \<^verbatim>\<open>month\<close> field holds the two-digit string of a month; it is represented by the
    number that string denotes, so \<^verbatim>\<open>parseInt(month)\<close> and \<^verbatim>\<open>String(n).padStart(2, '0')\<close> are
    the identity.
  \<^item> Dates are millisecond time stamps. The runtime's \<^verbatim>\<open>Date\<close> API is a parameter, the record
    \<open>clock\<close>: the current time, \<^verbatim>\<open>getMonth\<close>, \<^verbatim>\<open>getFullYear\<close> and the constructor
    \<^verbatim>\<open>new Date(year, monthIndex, 1)\<close>.
  \<^item> The Mongoose schema of the payment collection is not among the sources. A document holds
    the fields its handler supplies, a field the handler does not supply is \<open>None\<close>, and the
    store accepts every write of a number or a date; \<^verbatim>\<open>NaN\<close> and an invalid date are refused
    (section on JSON request bodies).
  \<^item> Descriptive fields that no decision reads (notes, payer name, payment method, the copy of
    the house number) are left out of the documents.
\<close>

datatype status = Pending | Partial | Paid | Overdue

datatype source = Paybill | Webhook | MpesaStk | EquityBank

datatype receipt = RCP int nat | Custom string

datatype tenant_status = Active | Inactive | Past

record house_doc =
  h_id :: nat
  houseNumber :: string
  rentAmount :: rat
  h_tenant :: "nat option"

record tenant_doc =
  t_id :: nat
  t_status :: tenant_status
  t_house :: "nat option"
  bankAccountNumber :: "string option"

record payment =
  pid :: nat
  tenant :: "nat option"
  house :: "nat option"
  amount :: "rat option"
  expectedAmount :: "rat option"
  paidAmount :: "rat option"
  deficit :: "rat option"
  carriedForward :: "rat option"
  lateFee :: "rat option"
  dueDate :: "int option"
  month :: "int option"
  year :: "int option"
  status :: status
  transactionId :: "string option"
  referenceNumber :: "string option"
  receiptNumber :: "receipt option"
  paymentSource :: "source option"

record db =
  houses :: "house_doc list"
  tenants :: "tenant_doc list"
  configPaybill :: "string option"

record clock =
  now :: int
  getMonth :: "int \<Rightarrow> int"
  getFullYear :: "int \<Rightarrow> int"
  mkDate :: "int \<Rightarrow> int \<Rightarrow> int"

text \<open>The messages of the JSON responses, without their interpolated text.\<close>

datatype msg =
    HouseNumberNotFound
  | HouseRequired
  | PaymentNotFound
  | PaymentJson
  | TypeError
  | InvalidPaybillNumber
  | AccountAndAmountRequired
  | HouseNumberAndAmountRequired
  | NoTenantAssigned
  | TransactionIdExists
  | PeriodPaymentExists
  | PaymentRecorded
  | ConfirmationReceived
  | WebhookReceived
  | PaymentProcessed
  | PaymentFailed
  | CastError

record response =
  code :: nat
  message :: msg
  r_payment :: "payment option"
  r_receiptNumber :: "receipt option"
  r_existingPayment :: "nat option"
  r_resultCode :: "int option"

definition reply :: "nat \<Rightarrow> msg \<Rightarrow> response" where
  "reply c m = \<lparr>code = c, message = m, r_payment = None, r_receiptNumber = None,
     r_existingPayment = None, r_resultCode = None\<rparr>"

text \<open>A response is successful when its HTTP status is below 400.\<close>

definition successful :: "response \<Rightarrow> bool" where
  "successful r = (code r < 400)"

subsection \<open>JavaScript truthiness and collection queries\<close>

definition truthy_str :: "string option \<Rightarrow> bool" where
  "truthy_str s = (case s of None \<Rightarrow> False | Some v \<Rightarrow> v \<noteq> [])"

definition truthy_num :: "rat option \<Rightarrow> bool" where
  "truthy_num a = (case a of None \<Rightarrow> False | Some v \<Rightarrow> v \<noteq> 0)"

text \<open>\<^verbatim>\<open>x || 0\<close> on a number that may be absent.\<close>

definition or_zero :: "rat option \<Rightarrow> rat" where
  "or_zero a = (case a of None \<Rightarrow> 0 | Some v \<Rightarrow> v)"

definition is_space :: "char \<Rightarrow> bool" where
  "is_space c = (c = CHR '' '' \<or> c = CHR 0x09 \<or> c = CHR 0x0A \<or> c = CHR 0x0D)"

definition trim :: "string \<Rightarrow> string" where
  "trim s = rev (dropWhile is_space (rev (dropWhile is_space s)))"

definition findOne :: "('a \<Rightarrow> bool) \<Rightarrow> 'a list \<Rightarrow> 'a option" where
  "findOne q xs = find q xs"

definition findLatest :: "('a \<Rightarrow> bool) \<Rightarrow> 'a list \<Rightarrow> 'a option" where
  "findLatest q xs = find q (rev xs)"

text \<open>\<^verbatim>\<open>doc.save()\<close> on a document that a query returned: the first match is replaced.\<close>

fun update_first :: "('a \<Rightarrow> bool) \<Rightarrow> ('a \<Rightarrow> 'a) \<Rightarrow> 'a list \<Rightarrow> 'a list" where
  "update_first q f [] = []"
| "update_first q f (x # xs) = (if q x then f x # xs else x # update_first q f xs)"

definition blank :: payment where
  "blank = \<lparr>pid = 0, tenant = None, house = None, amount = None, expectedAmount = None,
     paidAmount = None, deficit = None, carriedForward = None, lateFee = None, dueDate = None,
     month = None, year = None, status = Pending, transactionId = None,
     referenceNumber = None, receiptNumber = None, paymentSource = None\<rparr>"

text \<open>The query \<^verbatim>\<open>{tenant, house, month, year}\<close>.\<close>

definition in_period :: "nat \<Rightarrow> nat \<Rightarrow> int \<Rightarrow> int \<Rightarrow> payment \<Rightarrow> bool" where
  "in_period t h m y p =
     (tenant p = Some t \<and> house p = Some h \<and> month p = Some m \<and> year p = Some y)"

section \<open>Ledger calculation\<close>

text \<open>
  The preceding period, as every handler computes it:
  \<^verbatim>\<open>prevMonth = parseInt(month) - 1; prevYear = prevMonth === 0 ? year - 1 : year;
  prevMonthStr = prevMonth === 0 ? '12' : String(prevMonth).padStart(2, '0')\<close>.
\<close>

definition prev_period :: "int \<Rightarrow> int \<Rightarrow> int \<times> int" where
  "prev_period m y =
     (let prevMonth = m - 1;
          prevYear = (if prevMonth = 0 then y - 1 else y);
          prevMonthStr = (if prevMonth = 0 then 12 else prevMonth)
      in (prevMonthStr, prevYear))"

text \<open>
  The deficit carried forward: the most recently created record of the preceding period,
  \<^verbatim>\<open>if (prevPayment && prevPayment.deficit > 0) carriedForward = prevPayment.deficit\<close>.
\<close>

definition carried :: "payment list \<Rightarrow> nat \<Rightarrow> nat \<Rightarrow> int \<Rightarrow> int \<Rightarrow> rat" where
  "carried pays t h m y =
     (case prev_period m y of (pm, py) \<Rightarrow>
        (case findLatest (in_period t h pm py) pays of
           None \<Rightarrow> 0
         | Some prevPayment \<Rightarrow>
             (case deficit prevPayment of
                None \<Rightarrow> 0
              | Some d \<Rightarrow> if d > 0 then d else 0)))"

text \<open>
  The status chain of \<^verbatim>\<open>router.post('/')\<close> and \<^verbatim>\<open>router.put('/:id')\<close>:
  \<^verbatim>\<open>if (paidAmount >= expectedAmount) 'paid' else if (paidAmount > 0) 'partial' else 'pending'\<close>.
\<close>

definition ledger_status :: "rat \<Rightarrow> rat \<Rightarrow> status" where
  "ledger_status expected paid =
     (if paid \<ge> expected then Paid else if paid > 0 then Partial else Pending)"

subsection \<open>Create payment: \<^verbatim>\<open>router.post('/')\<close>\<close>

record create_req =
  cr_houseNumber :: "string option"
  cr_house :: "nat option"
  cr_tenant :: "nat option"
  cr_receiptNumber :: "receipt option"
  cr_month :: "int option"
  cr_year :: "int option"
  cr_amount :: "rat option"
  cr_transactionId :: "string option"
  cr_referenceNumber :: "string option"
  cr_paymentSource :: "source option"
  cr_dueDate :: "int option"
  cr_lateFee :: "rat option"

text \<open>The first block: a house number in the body is resolved to the house and its tenant.\<close>

definition resolve_house_number :: "db \<Rightarrow> create_req \<Rightarrow> create_req option" where
  "resolve_house_number d req =
     (if truthy_str (cr_houseNumber req) \<and> cr_house req = None then
        (case findOne (\<lambda>h. Some (houseNumber h) = cr_houseNumber req) (houses d) of
           None \<Rightarrow> None
         | Some h \<Rightarrow>
             Some (req\<lparr>cr_house := Some (h_id h),
                       cr_tenant := (if cr_tenant req = None \<and> h_tenant h \<noteq> None
                                     then h_tenant h else cr_tenant req)\<rparr>))
      else Some req)"

definition create_carried :: "payment list \<Rightarrow> create_req \<Rightarrow> house_doc \<Rightarrow> rat" where
  "create_carried pays req h =
     (case (cr_tenant req, cr_month req, cr_year req) of
        (Some t, Some m, Some y) \<Rightarrow> if y \<noteq> 0 then carried pays t (h_id h) m y else 0
      | _ \<Rightarrow> 0)"

definition create_payment ::
  "clock \<Rightarrow> db \<Rightarrow> create_req \<Rightarrow> payment list \<Rightarrow> response \<times> payment list" where
  "create_payment clk d req0 pays =
     (case resolve_house_number d req0 of
        None \<Rightarrow> (reply 404 HouseNumberNotFound, pays)
      | Some req \<Rightarrow>
          (case (case cr_house req of None \<Rightarrow> None
                 | Some i \<Rightarrow> findOne (\<lambda>h. h_id h = i) (houses d)) of
             None \<Rightarrow> (reply 400 HouseRequired, pays)
           | Some h \<Rightarrow>
               (let carriedForward = create_carried pays req h;
                    expected = rentAmount h + carriedForward;
                    paid = or_zero (cr_amount req);
                    p = blank\<lparr>pid := length pays,
                          tenant := cr_tenant req,
                          house := cr_house req,
                          amount := cr_amount req,
                          month := cr_month req,
                          year := cr_year req,
                          transactionId := cr_transactionId req,
                          referenceNumber := cr_referenceNumber req,
                          paymentSource := cr_paymentSource req,
                          dueDate := cr_dueDate req,
                          lateFee := cr_lateFee req,
                          receiptNumber :=
                            (case cr_receiptNumber req of
                               None \<Rightarrow> Some (RCP (getFullYear clk (now clk)) (length pays + 1))
                             | Some r \<Rightarrow> Some r),
                          expectedAmount := Some expected,
                          paidAmount := Some paid,
                          deficit := Some (max 0 (expected - paid)),
                          carriedForward := Some carriedForward,
                          status := ledger_status expected paid\<rparr>
                in ((reply 201 PaymentJson)\<lparr>r_payment := Some p\<rparr>, pays @ [p]))))"

subsection \<open>Update payment: \<^verbatim>\<open>router.put('/:id')\<close>\<close>

record update_req =
  up_amount :: "rat option"
  up_status :: "status option"
  up_lateFee :: "rat option"

text \<open>
  \<^verbatim>\<open>payment.expectedAmount || payment.house.rentAmount + (payment.carriedForward || 0)\<close>, with the
  house populated; reading \<^verbatim>\<open>rentAmount\<close> of a house that no longer exists throws.
\<close>

definition update_expected :: "db \<Rightarrow> payment \<Rightarrow> rat option" where
  "update_expected d p =
     (if truthy_num (expectedAmount p) then expectedAmount p
      else (case (case house p of None \<Rightarrow> None
                  | Some i \<Rightarrow> findOne (\<lambda>h. h_id h = i) (houses d)) of
              None \<Rightarrow> None
            | Some h \<Rightarrow> Some (rentAmount h + or_zero (carriedForward p))))"

definition apply_body :: "update_req \<Rightarrow> payment \<Rightarrow> payment" where
  "apply_body req p =
     p\<lparr>amount := (case up_amount req of None \<Rightarrow> amount p | Some a \<Rightarrow> Some a),
       status := (case up_status req of None \<Rightarrow> status p | Some s \<Rightarrow> s),
       lateFee := (case up_lateFee req of None \<Rightarrow> lateFee p | Some f \<Rightarrow> Some f)\<rparr>"

definition update_payment ::
  "db \<Rightarrow> nat \<Rightarrow> update_req \<Rightarrow> payment list \<Rightarrow> response \<times> payment list" where
  "update_payment d i req pays =
     (case findOne (\<lambda>p. pid p = i) pays of
        None \<Rightarrow> (reply 404 PaymentNotFound, pays)
      | Some p \<Rightarrow>
          (case up_amount req of
             None \<Rightarrow>
               (let p' = apply_body req p
                in ((reply 200 PaymentJson)\<lparr>r_payment := Some p'\<rparr>,
                    update_first (\<lambda>q. pid q = i) (\<lambda>_. p') pays))
           | Some paid \<Rightarrow>
               (case update_expected d p of
                  None \<Rightarrow> (reply 400 TypeError, pays)
                | Some expected \<Rightarrow>
                    (let p' = (apply_body req p)\<lparr>paidAmount := Some paid,
                                 deficit := Some (max 0 (expected - paid)),
                                 status := ledger_status expected paid\<rparr>
                     in ((reply 200 PaymentJson)\<lparr>r_payment := Some p'\<rparr>,
                         update_first (\<lambda>q. pid q = i) (\<lambda>_. p') pays)))))"

section \<open>Monthly rent generation: \<^verbatim>\<open>router.post('/generate-monthly-rent')\<close>\<close>

record generate_req =
  g_month :: "int option"
  g_year :: "int option"
  g_lateFeePercentage :: "rat option"
  g_gracePeriodDays :: "int option"

record generate_result =
  generated :: nat
  errors :: nat
  details :: "nat list"

text \<open>
  \<^verbatim>\<open>lateFeeDate.setDate(lateFeeDate.getDate() + gracePeriodDays)\<close>: whole days of 24 hours, as in
  a time zone without daylight saving.
\<close>

definition add_days :: "int \<Rightarrow> int \<Rightarrow> int" where
  "add_days t n = t + n * 86400000"

definition find_house :: "db \<Rightarrow> nat option \<Rightarrow> house_doc option" where
  "find_house d i = (case i of None \<Rightarrow> None | Some j \<Rightarrow> findOne (\<lambda>h. h_id h = j) (houses d))"

definition find_tenant :: "db \<Rightarrow> nat option \<Rightarrow> tenant_doc option" where
  "find_tenant d i = (case i of None \<Rightarrow> None | Some j \<Rightarrow> findOne (\<lambda>t. t_id t = j) (tenants d))"

text \<open>The record the generator builds for a tenant and the populated house.\<close>

definition generated_payment ::
  "clock \<Rightarrow> int \<Rightarrow> int \<Rightarrow> rat \<Rightarrow> int \<Rightarrow> payment list \<Rightarrow> tenant_doc \<Rightarrow> house_doc \<Rightarrow> payment" where
  "generated_payment clk targetMonth targetYear pct grace pays t h =
     (let due = mkDate clk targetYear (targetMonth - 1);
          carriedForward = carried pays (t_id t) (h_id h) targetMonth targetYear;
          expected = rentAmount h + carriedForward;
          lateFeeDate = add_days due grace;
          late = (now clk > lateFeeDate)
      in blank\<lparr>pid := length pays,
               tenant := Some (t_id t),
               house := Some (h_id h),
               amount := Some expected,
               expectedAmount := Some expected,
               paidAmount := Some 0,
               deficit := Some expected,
               carriedForward := Some carriedForward,
               dueDate := Some due,
               month := Some targetMonth,
               year := Some targetYear,
               status := (if late then Overdue else Pending),
               lateFee := Some (if late then (expected * pct) / 100 else 0)\<rparr>)"

text \<open>One iteration of the loop over the tenants; the state is the collection, the number of
  generated payments and the tenants pushed to \<^verbatim>\<open>errors\<close>.\<close>

definition generate_step ::
  "clock \<Rightarrow> db \<Rightarrow> int \<Rightarrow> int \<Rightarrow> rat \<Rightarrow> int \<Rightarrow> tenant_doc \<Rightarrow>
   payment list \<times> nat \<times> nat list \<Rightarrow> payment list \<times> nat \<times> nat list" where
  "generate_step clk d targetMonth targetYear pct grace t st =
     (case st of (pays, gen, errs) \<Rightarrow>
        (case find_house d (t_house t) of
           None \<Rightarrow> (pays, gen, errs)
         | Some h \<Rightarrow>
             (case findOne (in_period (t_id t) (h_id h) targetMonth targetYear) pays of
                Some existingPayment \<Rightarrow> (pays, gen, errs @ [t_id t])
              | None \<Rightarrow>
                  (pays @ [generated_payment clk targetMonth targetYear pct grace pays t h],
                   gen + 1, errs))))"

definition generate_monthly_rent ::
  "clock \<Rightarrow> db \<Rightarrow> generate_req \<Rightarrow> payment list \<Rightarrow> generate_result \<times> payment list" where
  "generate_monthly_rent clk d req pays =
     (let lateFeePercentage = (case g_lateFeePercentage req of None \<Rightarrow> 5 | Some v \<Rightarrow> v);
          gracePeriodDays = (case g_gracePeriodDays req of None \<Rightarrow> 5 | Some v \<Rightarrow> v);
          targetMonth = (case g_month req of None \<Rightarrow> getMonth clk (now clk) + 1 | Some m \<Rightarrow> m);
          targetYear = (case g_year req of None \<Rightarrow> getFullYear clk (now clk)
                        | Some y \<Rightarrow> if y = 0 then getFullYear clk (now clk) else y);
          ts = filter (\<lambda>t. t_status t = Active \<and> t_house t \<noteq> None) (tenants d)
      in (case fold (generate_step clk d targetMonth targetYear lateFeePercentage
                       gracePeriodDays) ts (pays, 0, []) of
            (pays', gen, errs) \<Rightarrow>
              (\<lparr>generated = gen, errors = length errs, details = errs\<rparr>, pays')))"

section \<open>Ingestion channels\<close>

text \<open>What a webhook handler writes to the log after it has acknowledged the caller.\<close>

datatype outcome =
    Ignored
  | LogInvalidData
  | LogHouseNotFound
  | LogNoTenant
  | LogTenantNotFound
  | LogNoHouse
  | LogTransactionExists
  | LogPeriodExists
  | LogError
  | Recorded payment

text \<open>\<^verbatim>\<open>House.findOne({houseNumber: ref.trim()}).populate('tenant')\<close>: the house and, when the
  reference resolves, the tenant.\<close>

definition house_by_number :: "db \<Rightarrow> string \<Rightarrow> (house_doc \<times> tenant_doc option) option" where
  "house_by_number d ref =
     (case findOne (\<lambda>h. houseNumber h = trim ref) (houses d) of
        None \<Rightarrow> None
      | Some h \<Rightarrow> Some (h, find_tenant d (h_tenant h)))"

definition paid_in_period :: "nat \<Rightarrow> nat \<Rightarrow> int \<Rightarrow> int \<Rightarrow> payment \<Rightarrow> bool" where
  "paid_in_period t h m y p = (in_period t h m y p \<and> status p = Paid)"

text \<open>The status of the pay-bill, confirmation and generic webhook channels:
  \<^verbatim>\<open>let status = 'paid'; if (amount < house.rentAmount) status = 'partial'\<close>.\<close>

definition rent_status :: "rat \<Rightarrow> house_doc \<Rightarrow> status" where
  "rent_status a h = (if a < rentAmount h then Partial else Paid)"

subsection \<open>M-Pesa confirmation: \<^verbatim>\<open>router.post('/mpesa-confirmation')\<close>\<close>

text \<open>\<open>TransTime\<close> is the instant \<^verbatim>\<open>new Date(TransTime)\<close> denotes.\<close>

record mpesa_req =
  TransID :: "string option"
  TransTime :: int
  TransAmount :: "rat option"
  BillRefNumber :: "string option"

definition mpesa_ack :: response where
  "mpesa_ack = (reply 200 ConfirmationReceived)\<lparr>r_resultCode := Some 0\<rparr>"

definition mpesa_process :: "clock \<Rightarrow> db \<Rightarrow> mpesa_req \<Rightarrow> payment list \<Rightarrow> outcome \<times> payment list" where
  "mpesa_process clk d req pays =
     (case (BillRefNumber req, TransAmount req, TransID req) of
        (Some ref, Some amt, Some tid) \<Rightarrow>
          (if ref = [] \<or> amt = 0 \<or> tid = [] then (Ignored, pays)
           else
             (case house_by_number d ref of
                None \<Rightarrow> (LogHouseNotFound, pays)
              | Some (h, None) \<Rightarrow> (LogNoTenant, pays)
              | Some (h, Some t) \<Rightarrow>
                  (case findOne (\<lambda>p. transactionId p = Some tid) pays of
                     Some existingPayment \<Rightarrow> (LogTransactionExists, pays)
                   | None \<Rightarrow>
                       (let m = getMonth clk (TransTime req) + 1;
                            y = getFullYear clk (TransTime req)
                        in (case findOne (paid_in_period (t_id t) (h_id h) m y) pays of
                              Some duplicatePayment \<Rightarrow> (LogPeriodExists, pays)
                            | None \<Rightarrow>
                                (let p = blank\<lparr>pid := length pays,
                                           tenant := Some (t_id t),
                                           house := Some (h_id h),
                                           amount := Some amt,
                                           dueDate := Some (mkDate clk y (m - 1)),
                                           status := rent_status amt h,
                                           month := Some m,
                                           year := Some y,
                                           transactionId := Some tid,
                                           referenceNumber := Some tid,
                                           paymentSource := Some Paybill,
                                           receiptNumber := Some (RCP y (length pays + 1))\<rparr>
                                 in (Recorded p, pays @ [p])))))))
      | _ \<Rightarrow> (Ignored, pays))"

text \<open>The acknowledgement is sent before the notification is looked at.\<close>

definition mpesa_confirmation ::
  "clock \<Rightarrow> db \<Rightarrow> mpesa_req \<Rightarrow> payment list \<Rightarrow> response \<times> outcome \<times> payment list" where
  "mpesa_confirmation clk d req pays = (mpesa_ack, mpesa_process clk d req pays)"

subsection \<open>Pay-bill: \<^verbatim>\<open>router.post('/paybill')\<close>\<close>

record paybill_req =
  pb_accountNumber :: "string option"
  pb_amount :: "rat option"
  pb_transactionId :: "string option"
  pb_referenceNumber :: "string option"
  pb_paybillNumber :: "string option"

text \<open>\<^verbatim>\<open>a || b\<close> on strings that may be absent.\<close>

definition or_str :: "string option \<Rightarrow> string option \<Rightarrow> string option" where
  "or_str a b = (if truthy_str a then a else b)"

definition paybill ::
  "clock \<Rightarrow> db \<Rightarrow> paybill_req \<Rightarrow> payment list \<Rightarrow> response \<times> payment list" where
  "paybill clk d req pays =
     (if truthy_str (pb_paybillNumber req) \<and> truthy_str (configPaybill d)
         \<and> configPaybill d \<noteq> pb_paybillNumber req
      then (reply 400 InvalidPaybillNumber, pays)
      else
        (case (pb_accountNumber req, pb_amount req) of
           (Some accountNumber, Some amt) \<Rightarrow>
             (if accountNumber = [] \<or> amt = 0 then (reply 400 AccountAndAmountRequired, pays)
              else
                (case house_by_number d accountNumber of
                   None \<Rightarrow> (reply 404 HouseNumberNotFound, pays)
                 | Some (h, None) \<Rightarrow> (reply 400 NoTenantAssigned, pays)
                 | Some (h, Some t) \<Rightarrow>
                     (case (if truthy_str (pb_transactionId req)
                            then findOne (\<lambda>p. transactionId p = pb_transactionId req) pays
                            else None) of
                        Some existingPayment \<Rightarrow>
                          ((reply 400 TransactionIdExists)
                             \<lparr>r_receiptNumber := receiptNumber existingPayment\<rparr>, pays)
                      | None \<Rightarrow>
                          (let m = getMonth clk (now clk) + 1;
                               y = getFullYear clk (now clk)
                           in (case findOne (paid_in_period (t_id t) (h_id h) m y) pays of
                                 Some existingPayment \<Rightarrow>
                                   ((reply 400 PeriodPaymentExists)
                                      \<lparr>r_existingPayment := Some (pid existingPayment),
                                        r_receiptNumber := receiptNumber existingPayment\<rparr>,
                                    pays)
                               | None \<Rightarrow>
                                   (let receipt = RCP y (length pays + 1);
                                        p = blank\<lparr>pid := length pays,
                                              tenant := Some (t_id t),
                                              house := Some (h_id h),
                                              amount := Some amt,
                                              dueDate := Some (mkDate clk y (m - 1)),
                                              status := rent_status amt h,
                                              month := Some m,
                                              year := Some y,
                                              transactionId :=
                                                or_str (pb_transactionId req)
                                                  (pb_referenceNumber req),
                                              referenceNumber := pb_referenceNumber req,
                                              paymentSource := Some Paybill,
                                              receiptNumber := Some receipt\<rparr>
                                    in ((reply 201 PaymentRecorded)
                                          \<lparr>r_payment := Some p,
                                            r_receiptNumber := Some receipt\<rparr>,
                                        pays @ [p])))))))
         | _ \<Rightarrow> (reply 400 AccountAndAmountRequired, pays)))"

subsection \<open>Generic webhook: \<^verbatim>\<open>router.post('/receive')\<close>\<close>

record receive_req =
  rc_houseNumber :: "string option"
  rc_amount :: "rat option"
  rc_transactionId :: "string option"
  rc_referenceNumber :: "string option"

definition receive ::
  "clock \<Rightarrow> db \<Rightarrow> receive_req \<Rightarrow> payment list \<Rightarrow> response \<times> payment list" where
  "receive clk d req pays =
     (case (rc_houseNumber req, rc_amount req) of
        (Some hn, Some amt) \<Rightarrow>
          (if hn = [] \<or> amt = 0 then (reply 400 HouseNumberAndAmountRequired, pays)
           else
             (case house_by_number d hn of
                None \<Rightarrow> (reply 404 HouseNumberNotFound, pays)
              | Some (h, None) \<Rightarrow> (reply 400 NoTenantAssigned, pays)
              | Some (h, Some t) \<Rightarrow>
                  (case (if truthy_str (rc_transactionId req)
                         then findOne (\<lambda>p. transactionId p = rc_transactionId req) pays
                         else None) of
                     Some existingPayment \<Rightarrow> (reply 400 TransactionIdExists, pays)
                   | None \<Rightarrow>
                       (let m = getMonth clk (now clk) + 1;
                            y = getFullYear clk (now clk)
                        in (case findOne (paid_in_period (t_id t) (h_id h) m y) pays of
                              Some existingPayment \<Rightarrow>
                                ((reply 400 PeriodPaymentExists)
                                   \<lparr>r_existingPayment := Some (pid existingPayment)\<rparr>, pays)
                            | None \<Rightarrow>
                                (let receipt = RCP y (length pays + 1);
                                     p = blank\<lparr>pid := length pays,
                                           tenant := Some (t_id t),
                                           house := Some (h_id h),
                                           amount := Some amt,
                                           dueDate := Some (mkDate clk y (m - 1)),
                                           status := rent_status amt h,
                                           month := Some m,
                                           year := Some y,
                                           transactionId := rc_transactionId req,
                                           referenceNumber := rc_referenceNumber req,
                                           paymentSource := Some Webhook,
                                           receiptNumber := Some receipt\<rparr>
                                 in ((reply 201 PaymentRecorded)
                                       \<lparr>r_payment := Some p, r_receiptNumber := Some receipt\<rparr>,
                                     pays @ [p])))))))
      | _ \<Rightarrow> (reply 400 HouseNumberAndAmountRequired, pays))"

subsection \<open>Bank webhook: \<^verbatim>\<open>processEquityBankPayment\<close> behind \<^verbatim>\<open>router.post('/webhook')\<close>\<close>

text \<open>The request after the field-name variants have been merged: each field is the first
  truthy one of its variants.\<close>

record bank_req =
  bk_accountNumber :: "string option"
  bk_amount :: "rat option"
  bk_transactionId :: "string option"
  bk_referenceNumber :: "string option"
  bk_transactionDate :: "int option"

definition bank_ack :: response where
  "bank_ack = reply 200 WebhookReceived"

text \<open>\<^verbatim>\<open>Tenant.findOne({bankAccountNumber, status: 'active'}).populate('house')\<close>.\<close>

definition tenant_by_account :: "db \<Rightarrow> string \<Rightarrow> (tenant_doc \<times> house_doc option) option" where
  "tenant_by_account d acc =
     (case findOne (\<lambda>t. bankAccountNumber t = Some (trim acc) \<and> t_status t = Active)
             (tenants d) of
        None \<Rightarrow> None
      | Some t \<Rightarrow> Some (t, find_house d (t_house t)))"

text \<open>The status of the bank channel:
  \<^verbatim>\<open>let status = 'paid'; if (paidAmount < expectedAmount) status = 'partial'\<close>.\<close>

definition bank_status :: "rat \<Rightarrow> rat \<Rightarrow> status" where
  "bank_status paid expected = (if paid < expected then Partial else Paid)"

definition processEquityBankPayment ::
  "clock \<Rightarrow> db \<Rightarrow> bank_req \<Rightarrow> payment list \<Rightarrow> outcome \<times> payment list" where
  "processEquityBankPayment clk d req pays =
     (let amt = or_zero (bk_amount req);
          transactionId' = bk_transactionId req;
          referenceNumber' = or_str (bk_referenceNumber req) transactionId';
          paymentDate = (case bk_transactionDate req of None \<Rightarrow> now clk | Some t \<Rightarrow> t)
      in (case bk_accountNumber req of
            None \<Rightarrow> (LogInvalidData, pays)
          | Some accountNumber \<Rightarrow>
              (if accountNumber = [] \<or> amt = 0 \<or> amt \<le> 0 then (LogInvalidData, pays)
               else
                 (case tenant_by_account d accountNumber of
                    None \<Rightarrow> (LogTenantNotFound, pays)
                  | Some (t, None) \<Rightarrow> (LogNoHouse, pays)
                  | Some (t, Some h) \<Rightarrow>
                      (case (if truthy_str transactionId'
                             then findOne (\<lambda>p. transactionId p = transactionId') pays
                             else None) of
                         Some existingPayment \<Rightarrow> (LogTransactionExists, pays)
                       | None \<Rightarrow>
                           (let m = getMonth clk paymentDate + 1;
                                y = getFullYear clk paymentDate;
                                existingMonthlyPayment =
                                  findOne (paid_in_period (t_id t) (h_id h) m y) pays
                            in (if (case existingMonthlyPayment of
                                      None \<Rightarrow> False
                                    | Some e \<Rightarrow> \<not> (amount e \<noteq> Some amt))
                                then (LogPeriodExists, pays)
                                else
                                  (let carriedForward = carried pays (t_id t) (h_id h) m y;
                                       expected = rentAmount h + carriedForward;
                                       p = blank\<lparr>pid := length pays,
                                             tenant := Some (t_id t),
                                             house := Some (h_id h),
                                             amount := Some amt,
                                             expectedAmount := Some expected,
                                             paidAmount := Some amt,
                                             deficit := Some (max 0 (expected - amt)),
                                             carriedForward := Some carriedForward,
                                             dueDate := Some (mkDate clk y (m - 1)),
                                             status := bank_status amt expected,
                                             month := Some m,
                                             year := Some y,
                                             transactionId :=
                                               or_str transactionId' referenceNumber',
                                             referenceNumber :=
                                               or_str referenceNumber' transactionId',
                                             paymentSource := Some EquityBank,
                                             receiptNumber := Some (RCP y (length pays + 1))\<rparr>
                                   in (Recorded p, pays @ [p])))))))))"

definition bank_webhook ::
  "clock \<Rightarrow> db \<Rightarrow> bank_req \<Rightarrow> payment list \<Rightarrow> response \<times> outcome \<times> payment list" where
  "bank_webhook clk d req pays = (bank_ack, processEquityBankPayment clk d req pays)"

section \<open>STK push callback: \<^verbatim>\<open>router.post('/callback')\<close>\<close>

text \<open>The request is the \<^verbatim>\<open>stkCallback\<close> object of the body. \<open>cb_metadata\<close> is \<open>None\<close> without
  \<^verbatim>\<open>CallbackMetadata\<close>; otherwise it holds the value of the item \<^verbatim>\<open>MpesaReceiptNumber\<close>, if
  there is one.\<close>

record callback_req =
  CheckoutRequestID :: string
  ResultCode :: int
  cb_metadata :: "string option option"

definition stk_callback :: "callback_req \<Rightarrow> payment list \<Rightarrow> response \<times> payment list" where
  "stk_callback req pays =
     (let q = (\<lambda>p. transactionId p = Some (CheckoutRequestID req))
      in (case findOne q pays of
            None \<Rightarrow> (reply 404 PaymentNotFound, pays)
          | Some payment \<Rightarrow>
              (case (if ResultCode req = 0 then cb_metadata req else None) of
                 Some mpesaReceiptNumber \<Rightarrow>
                   ((reply 200 PaymentProcessed)\<lparr>r_resultCode := Some 0\<rparr>,
                    update_first q
                      (\<lambda>p. p\<lparr>status := Paid,
                              referenceNumber := or_str mpesaReceiptNumber (Some []),
                              transactionId :=
                                or_str mpesaReceiptNumber (Some (CheckoutRequestID req))\<rparr>)
                      pays)
               | None \<Rightarrow>
                   ((reply 200 PaymentFailed)\<lparr>r_resultCode := Some (ResultCode req)\<rparr>,
                    update_first q (\<lambda>p. p\<lparr>status := Pending\<rparr>) pays))))"

section \<open>Overdue sweep: \<^verbatim>\<open>router.post('/check-overdue')\<close>\<close>

record overdue_req =
  od_lateFeePercentage :: "rat option"
  od_gracePeriodDays :: "int option"

text \<open>Whether the loop body updates a record: \<^verbatim>\<open>today > lateFeeDate && status !== 'overdue'\<close>
  on a record the query \<^verbatim>\<open>status: {$in: ['pending', 'partial']}\<close> selected. A record without
  a due date has an invalid date, and the comparison is false.\<close>

definition sweeps :: "clock \<Rightarrow> int \<Rightarrow> payment \<Rightarrow> bool" where
  "sweeps clk grace p =
     ((status p = Pending \<or> status p = Partial) \<and>
      (case dueDate p of
         None \<Rightarrow> False
       | Some due \<Rightarrow> now clk > add_days due grace \<and> status p \<noteq> Overdue))"

text \<open>The loop body, with the house populated:
  \<^verbatim>\<open>if (payment.lateFee === 0 && payment.house) payment.lateFee = rentAmount * pct / 100\<close>.\<close>

definition sweep_payment :: "db \<Rightarrow> rat \<Rightarrow> payment \<Rightarrow> payment" where
  "sweep_payment d pct p =
     (case (if lateFee p = Some 0 then find_house d (house p) else None) of
        Some h \<Rightarrow> p\<lparr>lateFee := Some ((rentAmount h * pct) / 100), status := Overdue\<rparr>
      | None \<Rightarrow> p\<lparr>status := Overdue\<rparr>)"

definition check_overdue ::
  "clock \<Rightarrow> db \<Rightarrow> overdue_req \<Rightarrow> payment list \<Rightarrow> nat \<times> payment list" where
  "check_overdue clk d req pays =
     (let lateFeePercentage = (case od_lateFeePercentage req of None \<Rightarrow> 5 | Some v \<Rightarrow> v);
          gracePeriodDays = (case od_gracePeriodDays req of None \<Rightarrow> 5 | Some v \<Rightarrow> v)
      in (length (filter (sweeps clk gracePeriodDays) pays),
          map (\<lambda>p. if sweeps clk gracePeriodDays p then sweep_payment d lateFeePercentage p
                    else p) pays))"

section \<open>Request bodies as JSON values\<close>

text \<open>
  The ingestion handlers destructure \<^verbatim>\<open>req.body\<close> and test their required fields with
  JavaScript truthiness (\<^verbatim>\<open>!accountNumber || !amount\<close>, \<^verbatim>\<open>!houseNumber || !amount\<close>,
  \<^verbatim>\<open>BillRefNumber && TransAmount && TransID\<close>, \<^verbatim>\<open>!accountNumber || !amount || amount <= 0\<close>),
  whatever the JSON type of the field, and convert the amount with \<^verbatim>\<open>parseFloat\<close>. This
  section repeats the four handlers for an account reference and an amount of any JSON
  type. The handlers of the section before are their restriction to a reference that is a
  string and an amount that is a number.

  A field of the body is \<^verbatim>\<open>null\<close>, a boolean, a number, a string, or an array or object. Of an
  array or object only the string it converts to is kept (the elements joined by commas, or
  \<^verbatim>\<open>[object Object]\<close>): it is what \<^verbatim>\<open>parseFloat\<close>, \<^verbatim>\<open><\<close> and \<^verbatim>\<open>toString()\<close> see of it.
\<close>

datatype jsval = JNull | JBool bool | JNum rat | JStr string | JObj string

text \<open>Truthiness: \<^verbatim>\<open>!v\<close> holds of \<^verbatim>\<open>undefined\<close>, \<^verbatim>\<open>null\<close>, \<^verbatim>\<open>false\<close>, the number 0 and the empty
  string, and of nothing else that a parsed body holds.\<close>

definition truthy :: "jsval option \<Rightarrow> bool" where
  "truthy v =
     (case v of
        None \<Rightarrow> False
      | Some JNull \<Rightarrow> False
      | Some (JBool b) \<Rightarrow> b
      | Some (JNum x) \<Rightarrow> x \<noteq> 0
      | Some (JStr s) \<Rightarrow> s \<noteq> []
      | Some (JObj s) \<Rightarrow> True)"

text \<open>The conversions between strings and numbers are parameters: \<^verbatim>\<open>parseFloat(s)\<close>, the
  \<^verbatim>\<open>ToNumber\<close> conversion that \<^verbatim>\<open><\<close> applies to a string operand, and the string of a number.
  \<open>None\<close> is \<^verbatim>\<open>NaN\<close>.\<close>

record coercion =
  parseFloat :: "string \<Rightarrow> rat option"
  toNumber :: "string \<Rightarrow> rat option"
  numToString :: "rat \<Rightarrow> string"

text \<open>\<^verbatim>\<open>parseFloat(v)\<close> converts its argument to a string first: a number is read back,
  \<^verbatim>\<open>'true'\<close>, \<^verbatim>\<open>'false'\<close> and \<^verbatim>\<open>'null'\<close> are \<^verbatim>\<open>NaN\<close>.\<close>

definition parse_float :: "coercion \<Rightarrow> jsval \<Rightarrow> rat option" where
  "parse_float js v =
     (case v of
        JNum x \<Rightarrow> Some x
      | JStr s \<Rightarrow> parseFloat js s
      | JObj s \<Rightarrow> parseFloat js s
      | _ \<Rightarrow> None)"

definition to_number :: "coercion \<Rightarrow> jsval \<Rightarrow> rat option" where
  "to_number js v =
     (case v of
        JNull \<Rightarrow> Some 0
      | JBool b \<Rightarrow> Some (if b then 1 else 0)
      | JNum x \<Rightarrow> Some x
      | JStr s \<Rightarrow> toNumber js s
      | JObj s \<Rightarrow> toNumber js s)"

text \<open>\<^verbatim>\<open>v.toString()\<close> for a truthy \<open>v\<close>.\<close>

definition to_string :: "coercion \<Rightarrow> jsval \<Rightarrow> string" where
  "to_string js v =
     (case v of
        JNull \<Rightarrow> ''null''
      | JBool b \<Rightarrow> if b then ''true'' else ''false''
      | JNum x \<Rightarrow> numToString js x
      | JStr s \<Rightarrow> s
      | JObj s \<Rightarrow> s)"

text \<open>\<^verbatim>\<open>a < b\<close> for a number \<open>b\<close>: false when \<open>a\<close> is \<^verbatim>\<open>NaN\<close>.\<close>

definition less_than :: "rat option \<Rightarrow> rat \<Rightarrow> bool" where
  "less_than a b = (case a of None \<Rightarrow> False | Some x \<Rightarrow> x < b)"


text \<open>
  An amount that is \<^verbatim>\<open>NaN\<close> is not stored: \<open>amount\<close> is taken to be a \<^verbatim>\<open>Number\<close> path of the
  payment schema, to which Mongoose does not cast \<^verbatim>\<open>NaN\<close>, so that \<^verbatim>\<open>save()\<close> rejects with a
  validation error (\<open>CastError\<close>), which the \<^verbatim>\<open>catch\<close> block answers or logs. \<^verbatim>\<open>trim()\<close> on
  a reference that is truthy and not a string raises a \<open>TypeError\<close> in the same way.
\<close>

subsection \<open>Pay-bill\<close>

record paybill_json =
  pj_accountNumber :: "jsval option"
  pj_amount :: "jsval option"
  pj_transactionId :: "string option"
  pj_referenceNumber :: "string option"
  pj_paybillNumber :: "string option"

definition paybill_untyped ::
  "coercion \<Rightarrow> clock \<Rightarrow> db \<Rightarrow> paybill_json \<Rightarrow> payment list \<Rightarrow> response \<times> payment list" where
  "paybill_untyped js clk d req pays =
     (if truthy_str (pj_paybillNumber req) \<and> truthy_str (configPaybill d)
         \<and> configPaybill d \<noteq> pj_paybillNumber req
      then (reply 400 InvalidPaybillNumber, pays)
      else if \<not> truthy (pj_accountNumber req) \<or> \<not> truthy (pj_amount req)
      then (reply 400 AccountAndAmountRequired, pays)
      else
        (case (pj_accountNumber req, pj_amount req) of
           (Some (JStr accountNumber), Some amount') \<Rightarrow>
             (case house_by_number d accountNumber of
                None \<Rightarrow> (reply 404 HouseNumberNotFound, pays)
              | Some (h, None) \<Rightarrow> (reply 400 NoTenantAssigned, pays)
              | Some (h, Some t) \<Rightarrow>
                  (case (if truthy_str (pj_transactionId req)
                         then findOne (\<lambda>p. transactionId p = pj_transactionId req) pays
                         else None) of
                     Some existingPayment \<Rightarrow>
                       ((reply 400 TransactionIdExists)
                          \<lparr>r_receiptNumber := receiptNumber existingPayment\<rparr>, pays)
                   | None \<Rightarrow>
                       (let m = getMonth clk (now clk) + 1;
                            y = getFullYear clk (now clk)
                        in (case findOne (paid_in_period (t_id t) (h_id h) m y) pays of
                              Some existingPayment \<Rightarrow>
                                ((reply 400 PeriodPaymentExists)
                                   \<lparr>r_existingPayment := Some (pid existingPayment),
                                     r_receiptNumber := receiptNumber existingPayment\<rparr>,
                                 pays)
                            | None \<Rightarrow>
                                (case parse_float js amount' of
                                   None \<Rightarrow> (reply 400 CastError, pays)
                                 | Some amt \<Rightarrow>
                                     (let receipt = RCP y (length pays + 1);
                                          p = blank\<lparr>pid := length pays,
                                                tenant := Some (t_id t),
                                                house := Some (h_id h),
                                                amount := Some amt,
                                                dueDate := Some (mkDate clk y (m - 1)),
                                                status :=
                                                  (if less_than (to_number js amount')
                                                        (rentAmount h)
                                                   then Partial else Paid),
                                                month := Some m,
                                                year := Some y,
                                                transactionId :=
                                                  or_str (pj_transactionId req)
                                                    (pj_referenceNumber req),
                                                referenceNumber := pj_referenceNumber req,
                                                paymentSource := Some Paybill,
                                                receiptNumber := Some receipt\<rparr>
                                      in ((reply 201 PaymentRecorded)
                                            \<lparr>r_payment := Some p,
                                              r_receiptNumber := Some receipt\<rparr>,
                                          pays @ [p])))))))
         | _ \<Rightarrow> (reply 400 TypeError, pays)))"

subsection \<open>Generic webhook\<close>

record receive_json =
  rj_houseNumber :: "jsval option"
  rj_amount :: "jsval option"
  rj_transactionId :: "string option"
  rj_referenceNumber :: "string option"

definition receive_untyped ::
  "coercion \<Rightarrow> clock \<Rightarrow> db \<Rightarrow> receive_json \<Rightarrow> payment list \<Rightarrow> response \<times> payment list" where
  "receive_untyped js clk d req pays =
     (if \<not> truthy (rj_houseNumber req) \<or> \<not> truthy (rj_amount req)
      then (reply 400 HouseNumberAndAmountRequired, pays)
      else
        (case (rj_houseNumber req, rj_amount req) of
           (Some (JStr hn), Some amount') \<Rightarrow>
             (case house_by_number d hn of
                None \<Rightarrow> (reply 404 HouseNumberNotFound, pays)
              | Some (h, None) \<Rightarrow> (reply 400 NoTenantAssigned, pays)
              | Some (h, Some t) \<Rightarrow>
                  (case (if truthy_str (rj_transactionId req)
                         then findOne (\<lambda>p. transactionId p = rj_transactionId req) pays
                         else None) of
                     Some existingPayment \<Rightarrow> (reply 400 TransactionIdExists, pays)
                   | None \<Rightarrow>
                       (let m = getMonth clk (now clk) + 1;
                            y = getFullYear clk (now clk)
                        in (case findOne (paid_in_period (t_id t) (h_id h) m y) pays of
                              Some existingPayment \<Rightarrow>
                                ((reply 400 PeriodPaymentExists)
                                   \<lparr>r_existingPayment := Some (pid existingPayment)\<rparr>, pays)
                            | None \<Rightarrow>
                                (case parse_float js amount' of
                                   None \<Rightarrow> (reply 400 CastError, pays)
                                 | Some amt \<Rightarrow>
                                     (let receipt = RCP y (length pays + 1);
                                          p = blank\<lparr>pid := length pays,
                                                tenant := Some (t_id t),
                                                house := Some (h_id h),
                                                amount := Some amt,
                                                dueDate := Some (mkDate clk y (m - 1)),
                                                status :=
                                                  (if less_than (to_number js amount')
                                                        (rentAmount h)
                                                   then Partial else Paid),
                                                month := Some m,
                                                year := Some y,
                                                transactionId := rj_transactionId req,
                                                referenceNumber := rj_referenceNumber req,
                                                paymentSource := Some Webhook,
                                                receiptNumber := Some receipt\<rparr>
                                      in ((reply 201 PaymentRecorded)
                                            \<lparr>r_payment := Some p,
                                              r_receiptNumber := Some receipt\<rparr>,
                                          pays @ [p])))))))
         | _ \<Rightarrow> (reply 400 TypeError, pays)))"

subsection \<open>M-Pesa confirmation\<close>

text \<open>\<open>mj_TransTime\<close> is the instant \<^verbatim>\<open>new Date(TransTime)\<close> denotes, \<open>None\<close> when that is an
  invalid date (the field is absent or not in a format \<^verbatim>\<open>Date\<close> parses): month and year are
  then \<^verbatim>\<open>NaN\<close>, no record is stored, and the error is logged.\<close>

record mpesa_json =
  mj_TransID :: "string option"
  mj_TransTime :: "int option"
  mj_TransAmount :: "jsval option"
  mj_BillRefNumber :: "jsval option"

definition mpesa_process_untyped ::
  "coercion \<Rightarrow> clock \<Rightarrow> db \<Rightarrow> mpesa_json \<Rightarrow> payment list \<Rightarrow> outcome \<times> payment list" where
  "mpesa_process_untyped js clk d req pays =
     (if truthy (mj_BillRefNumber req) \<and> truthy (mj_TransAmount req)
         \<and> truthy_str (mj_TransID req)
      then
        (case (mj_BillRefNumber req, mj_TransAmount req, mj_TransID req) of
           (Some (JStr ref), Some amount', Some tid) \<Rightarrow>
             (case house_by_number d ref of
                None \<Rightarrow> (LogHouseNotFound, pays)
              | Some (h, None) \<Rightarrow> (LogNoTenant, pays)
              | Some (h, Some t) \<Rightarrow>
                  (case findOne (\<lambda>p. transactionId p = Some tid) pays of
                     Some existingPayment \<Rightarrow> (LogTransactionExists, pays)
                   | None \<Rightarrow>
                       (case mj_TransTime req of
                          None \<Rightarrow> (LogError, pays)
                        | Some transDate \<Rightarrow>
                            (let m = getMonth clk transDate + 1;
                                 y = getFullYear clk transDate
                             in (case findOne (paid_in_period (t_id t) (h_id h) m y) pays of
                                   Some duplicatePayment \<Rightarrow> (LogPeriodExists, pays)
                                 | None \<Rightarrow>
                                     (case parse_float js amount' of
                                        None \<Rightarrow> (LogError, pays)
                                      | Some amt \<Rightarrow>
                                          (let p = blank\<lparr>pid := length pays,
                                                     tenant := Some (t_id t),
                                                     house := Some (h_id h),
                                                     amount := Some amt,
                                                     dueDate := Some (mkDate clk y (m - 1)),
                                                     status := rent_status amt h,
                                                     month := Some m,
                                                     year := Some y,
                                                     transactionId := Some tid,
                                                     referenceNumber := Some tid,
                                                     paymentSource := Some Paybill,
                                                     receiptNumber :=
                                                       Some (RCP y (length pays + 1))\<rparr>
                                           in (Recorded p, pays @ [p]))))))))
         | _ \<Rightarrow> (LogError, pays))
      else (Ignored, pays))"

definition mpesa_confirmation_untyped ::
  "coercion \<Rightarrow> clock \<Rightarrow> db \<Rightarrow> mpesa_json \<Rightarrow> payment list
   \<Rightarrow> response \<times> outcome \<times> payment list" where
  "mpesa_confirmation_untyped js clk d req pays =
     (mpesa_ack, mpesa_process_untyped js clk d req pays)"

subsection \<open>Bank webhook\<close>

text \<open>\<open>bj_transactionDate\<close> is \<open>None\<close> when the body has no date, and \<open>Some None\<close> when
  \<^verbatim>\<open>new Date(transactionDate)\<close> is an invalid date: month and year are then \<^verbatim>\<open>NaN\<close>, no record
  is stored, and the error is logged.\<close>

record bank_json =
  bj_accountNumber :: "jsval option"
  bj_amount :: "jsval option"
  bj_transactionId :: "string option"
  bj_referenceNumber :: "string option"
  bj_transactionDate :: "int option option"

text \<open>\<^verbatim>\<open>parseFloat(webhookData.amount || 0)\<close>.\<close>

definition bank_amount :: "coercion \<Rightarrow> jsval option \<Rightarrow> rat option" where
  "bank_amount js v =
     (case v of
        None \<Rightarrow> Some 0
      | Some x \<Rightarrow> if truthy (Some x) then parse_float js x else Some 0)"

definition processEquityBankPayment_untyped ::
  "coercion \<Rightarrow> clock \<Rightarrow> db \<Rightarrow> bank_json \<Rightarrow> payment list \<Rightarrow> outcome \<times> payment list" where
  "processEquityBankPayment_untyped js clk d req pays =
     (let transactionId' = bj_transactionId req;
          referenceNumber' = or_str (bj_referenceNumber req) transactionId'
      in (case (bj_accountNumber req, bank_amount js (bj_amount req)) of
            (Some accountNumber, Some amt) \<Rightarrow>
              (if \<not> truthy (Some accountNumber) \<or> amt = 0 \<or> amt \<le> 0
               then (LogInvalidData, pays)
               else
                 (case tenant_by_account d (to_string js accountNumber) of
                    None \<Rightarrow> (LogTenantNotFound, pays)
                  | Some (t, None) \<Rightarrow> (LogNoHouse, pays)
                  | Some (t, Some h) \<Rightarrow>
                      (case (if truthy_str transactionId'
                             then findOne (\<lambda>p. transactionId p = transactionId') pays
                             else None) of
                         Some existingPayment \<Rightarrow> (LogTransactionExists, pays)
                       | None \<Rightarrow>
                           (case (case bj_transactionDate req of
                                    None \<Rightarrow> Some (now clk)
                                  | Some t \<Rightarrow> t) of
                              None \<Rightarrow> (LogError, pays)
                            | Some paymentDate \<Rightarrow>
                                (let m = getMonth clk paymentDate + 1;
                                     y = getFullYear clk paymentDate;
                                     existingMonthlyPayment =
                                       findOne (paid_in_period (t_id t) (h_id h) m y) pays
                                 in (if (case existingMonthlyPayment of
                                           None \<Rightarrow> False
                                         | Some e \<Rightarrow> \<not> (amount e \<noteq> Some amt))
                                     then (LogPeriodExists, pays)
                                     else
                                       (let carriedForward =
                                              carried pays (t_id t) (h_id h) m y;
                                            expected = rentAmount h + carriedForward;
                                            p = blank\<lparr>pid := length pays,
                                                  tenant := Some (t_id t),
                                                  house := Some (h_id h),
                                                  amount := Some amt,
                                                  expectedAmount := Some expected,
                                                  paidAmount := Some amt,
                                                  deficit := Some (max 0 (expected - amt)),
                                                  carriedForward := Some carriedForward,
                                                  dueDate := Some (mkDate clk y (m - 1)),
                                                  status := bank_status amt expected,
                                                  month := Some m,
                                                  year := Some y,
                                                  transactionId :=
                                                    or_str transactionId' referenceNumber',
                                                  referenceNumber :=
                                                    or_str referenceNumber' transactionId',
                                                  paymentSource := Some EquityBank,
                                                  receiptNumber :=
                                                    Some (RCP y (length pays + 1))\<rparr>
                                        in (Recorded p, pays @ [p]))))))))
          | _ \<Rightarrow> (LogInvalidData, pays)))"

definition bank_webhook_untyped ::
  "coercion \<Rightarrow> clock \<Rightarrow> db \<Rightarrow> bank_json \<Rightarrow> payment list
   \<Rightarrow> response \<times> outcome \<times> payment list" where
  "bank_webhook_untyped js clk d req pays =
     (bank_ack, processEquityBankPayment_untyped js clk d req pays)"

subsection \<open>Bodies with a string reference and a numeric amount\<close>

definition paybill_json_of :: "paybill_req \<Rightarrow> paybill_json" where
  "paybill_json_of r =
     \<lparr>pj_accountNumber = map_option JStr (pb_accountNumber r),
      pj_amount = map_option JNum (pb_amount r),
      pj_transactionId = pb_transactionId r,
      pj_referenceNumber = pb_referenceNumber r,
      pj_paybillNumber = pb_paybillNumber r\<rparr>"

definition receive_json_of :: "receive_req \<Rightarrow> receive_json" where
  "receive_json_of r =
     \<lparr>rj_houseNumber = map_option JStr (rc_houseNumber r),
      rj_amount = map_option JNum (rc_amount r),
      rj_transactionId = rc_transactionId r,
      rj_referenceNumber = rc_referenceNumber r\<rparr>"

definition mpesa_json_of :: "mpesa_req \<Rightarrow> mpesa_json" where
  "mpesa_json_of r =
     \<lparr>mj_TransID = TransID r, mj_TransTime = Some (TransTime r),
      mj_TransAmount = map_option JNum (TransAmount r),
      mj_BillRefNumber = map_option JStr (BillRefNumber r)\<rparr>"

definition bank_json_of :: "bank_req \<Rightarrow> bank_json" where
  "bank_json_of r =
     \<lparr>bj_accountNumber = map_option JStr (bk_accountNumber r),
      bj_amount = map_option JNum (bk_amount r),
      bj_transactionId = bk_transactionId r, bj_referenceNumber = bk_referenceNumber r,
      bj_transactionDate = map_option Some (bk_transactionDate r)\<rparr>"


section \<open>Example data\<close>

text \<open>A calendar of twelve months of thirty days, counted from 1970, for the examples.\<close>

definition ex_clock :: "int \<Rightarrow> clock" where
  "ex_clock t =
     \<lparr>now = t,
      getMonth = (\<lambda>t. (t div (30 * 86400000)) mod 12),
      getFullYear = (\<lambda>t. 1970 + t div (360 * 86400000)),
      mkDate = (\<lambda>y m. ((y - 1970) * 12 + m) * 30 * 86400000)\<rparr>"

text \<open>The eleventh day of March 2024 in that calendar.\<close>

definition ex_now :: int where
  "ex_now = 1685664000000"

text \<open>House 101 is let to tenant 7 at a rent of 1200; house 102 is free of rent and vacant.\<close>

definition ex_db :: db where
  "ex_db =
     \<lparr>houses = [\<lparr>h_id = 1, houseNumber = ''101'', rentAmount = 1200, h_tenant = Some 7\<rparr>,
                \<lparr>h_id = 2, houseNumber = ''102'', rentAmount = 0, h_tenant = None\<rparr>],
      tenants = [\<lparr>t_id = 7, t_status = Active, t_house = Some 1,
                  bankAccountNumber = Some ''1234567890''\<rparr>],
      configPaybill = None\<rparr>"

definition ex_create :: "nat \<Rightarrow> rat option \<Rightarrow> create_req" where
  "ex_create h a =
     \<lparr>cr_houseNumber = None, cr_house = Some h, cr_tenant = Some 7, cr_receiptNumber = None,
      cr_month = Some 3, cr_year = Some 2024, cr_amount = a, cr_transactionId = None,
      cr_referenceNumber = None, cr_paymentSource = None, cr_dueDate = None,
      cr_lateFee = None\<rparr>"

definition ex_update :: "rat \<Rightarrow> update_req" where
  "ex_update a = \<lparr>up_amount = Some a, up_status = None, up_lateFee = None\<rparr>"

text \<open>The record of tenant 7 and house 1 for February 2024: 800 paid of 1200.\<close>

definition ex_february :: payment where
  "ex_february =
     blank\<lparr>pid := 0, tenant := Some 7, house := Some 1, amount := Some 800,
           expectedAmount := Some 1200, paidAmount := Some 800, deficit := Some 400,
           carriedForward := Some 0, lateFee := Some 0, dueDate := Some 1682208000000,
           month := Some 2, year := Some 2024, status := Partial,
           receiptNumber := Some (RCP 2024 1)\<rparr>"

definition ex_generate :: generate_req where
  "ex_generate =
     \<lparr>g_month = Some 3, g_year = Some 2024, g_lateFeePercentage = None,
      g_gracePeriodDays = None\<rparr>"

text \<open>A record of tenant 7 and house 1 for March 2024 that is still pending.\<close>

definition ex_march :: payment where
  "ex_march =
     blank\<lparr>pid := 1, tenant := Some 7, house := Some 1, amount := Some 1600,
           expectedAmount := Some 1600, paidAmount := Some 0, deficit := Some 1600,
           carriedForward := Some 400, lateFee := Some 0, dueDate := Some 1684800000000,
           month := Some 3, year := Some 2024, status := Pending\<rparr>"

definition ex_overdue :: overdue_req where
  "ex_overdue = \<lparr>od_lateFeePercentage = Some 5, od_gracePeriodDays = Some 5\<rparr>"

text \<open>Notifications for house 101 on each channel, and the tenant's bank account.\<close>

definition ex_paybill :: "rat option \<Rightarrow> paybill_req" where
  "ex_paybill a =
     \<lparr>pb_accountNumber = Some ''101'', pb_amount = a,
      pb_transactionId = Some ''TEST-TXN-001'', pb_referenceNumber = None,
      pb_paybillNumber = None\<rparr>"

definition ex_receive :: "rat option \<Rightarrow> receive_req" where
  "ex_receive a =
     \<lparr>rc_houseNumber = Some ''101'', rc_amount = a, rc_transactionId = Some ''TXN-77'',
      rc_referenceNumber = None\<rparr>"

definition ex_mpesa :: "rat option \<Rightarrow> mpesa_req" where
  "ex_mpesa a =
     \<lparr>TransID = Some ''TEST123456789'', TransTime = 1685664000000, TransAmount = a,
      BillRefNumber = Some ''101''\<rparr>"

definition ex_bank :: "rat option \<Rightarrow> bank_req" where
  "ex_bank a =
     \<lparr>bk_accountNumber = Some ''1234567890'', bk_amount = a,
      bk_transactionId = Some ''TXN123456'', bk_referenceNumber = Some ''REF789'',
      bk_transactionDate = None\<rparr>"

text \<open>A settled record of tenant 7 and house 1 for March 2024.\<close>

definition ex_paid_march :: payment where
  "ex_paid_march =
     blank\<lparr>pid := 0, tenant := Some 7, house := Some 1, amount := Some 1200,
           dueDate := Some 1684800000000, month := Some 3, year := Some 2024,
           status := Paid, transactionId := Some ''OLD-1'',
           receiptNumber := Some (RCP 2024 1), paymentSource := Some Paybill\<rparr>"

text \<open>The pending record of an STK push and the provider's callback for it.\<close>

definition ex_stk :: payment where
  "ex_stk =
     blank\<lparr>pid := 0, tenant := Some 7, house := Some 1, amount := Some 1200,
           dueDate := Some 1684800000000, month := Some 3, year := Some 2024,
           status := Pending, transactionId := Some ''ws_CO_1'',
           receiptNumber := Some (RCP 2024 1), paymentSource := Some MpesaStk\<rparr>"

definition ex_callback :: callback_req where
  "ex_callback =
     \<lparr>CheckoutRequestID = ''ws_CO_1'', ResultCode = 0, cb_metadata = Some (Some ''QGH7XK'')\<rparr>"



text \<open>Conversions for the examples, for strings without sign, point or white space and for
  natural numbers: \<^verbatim>\<open>parseFloat\<close> reads the longest prefix of decimal digits and is \<^verbatim>\<open>NaN\<close> when
  there is none; \<^verbatim>\<open>ToNumber\<close> reads a string of decimal digits, the empty string as 0, and is
  \<^verbatim>\<open>NaN\<close> otherwise; the string of a number is that of its integral part in decimal digits.\<close>

definition is_digit :: "char \<Rightarrow> bool" where
  "is_digit c = (48 \<le> (of_char c :: nat) \<and> (of_char c :: nat) \<le> 57)"

fun digits_value :: "string \<Rightarrow> nat \<Rightarrow> nat" where
  "digits_value [] n = n"
| "digits_value (c # cs) n = digits_value cs (10 * n + (of_char c - 48))"

fun nat_string :: "nat \<Rightarrow> string" where
  "nat_string n =
     (if n < 10 then [''0123456789'' ! n]
      else nat_string (n div 10) @ [''0123456789'' ! (n mod 10)])"

definition ex_js :: coercion where
  "ex_js =
     \<lparr>parseFloat = (\<lambda>s. if takeWhile is_digit s = [] then None
                         else Some (of_nat (digits_value (takeWhile is_digit s) 0))),
      toNumber = (\<lambda>s. if list_all is_digit s then Some (of_nat (digits_value s 0))
                       else None),
      numToString = (\<lambda>x. nat_string (nat \<lfloor>x\<rfloor>))\<rparr>"

text \<open>Notification bodies with the transaction ids of the notifications above.\<close>

definition ex_paybill_json :: "jsval option \<Rightarrow> jsval option \<Rightarrow> paybill_json" where
  "ex_paybill_json ref a =
     \<lparr>pj_accountNumber = ref, pj_amount = a,
      pj_transactionId = Some ''TEST-TXN-001'', pj_referenceNumber = None,
      pj_paybillNumber = None\<rparr>"

definition ex_receive_json :: "jsval option \<Rightarrow> jsval option \<Rightarrow> receive_json" where
  "ex_receive_json ref a =
     \<lparr>rj_houseNumber = ref, rj_amount = a, rj_transactionId = Some ''TXN-77'',
      rj_referenceNumber = None\<rparr>"

definition ex_mpesa_json :: "jsval option \<Rightarrow> jsval option \<Rightarrow> mpesa_json" where
  "ex_mpesa_json ref a =
     \<lparr>mj_TransID = Some ''TEST123456789'', mj_TransTime = Some 1685664000000,
      mj_TransAmount = a, mj_BillRefNumber = ref\<rparr>"

definition ex_bank_json :: "jsval option \<Rightarrow> jsval option \<Rightarrow> bank_json" where
  "ex_bank_json ref a =
     \<lparr>bj_accountNumber = ref, bj_amount = a,
      bj_transactionId = Some ''TXN123456'', bj_referenceNumber = Some ''REF789'',
      bj_transactionDate = None\<rparr>"

section \<open>Properties of the ledger calculation\<close>

lemma resolve_house_number_amount:
  "resolve_house_number d req = Some req' \<Longrightarrow> cr_amount req' = cr_amount req"
  by (auto simp: resolve_house_number_def split: if_splits option.splits)

lemma create_payment_created:
  assumes "create_payment clk d req pays = (r, pays')" "successful r"
  shows "\<exists>p h c. pays' = pays @ [p] \<and> r_payment r = Some p \<and> find_house d (house p) = Some h \<and>
     carriedForward p = Some c \<and> expectedAmount p = Some (rentAmount h + c) \<and>
     paidAmount p = Some (or_zero (cr_amount req)) \<and>
     deficit p = Some (max 0 (rentAmount h + c - or_zero (cr_amount req))) \<and>
     status p = ledger_status (rentAmount h + c) (or_zero (cr_amount req))"
proof (cases "resolve_house_number d req")
  case None
  with assms show ?thesis
    by (auto simp: create_payment_def successful_def reply_def)
next
  case (Some req')
  note am = resolve_house_number_amount [OF Some]
  show ?thesis
  proof (cases "find_house d (cr_house req')")
    case None
    with Some assms show ?thesis
      by (auto simp: create_payment_def successful_def reply_def find_house_def)
  next
    case h: (Some h)
    with Some assms am show ?thesis
      by (auto simp: create_payment_def find_house_def Let_def)
  qed
qed

lemma update_payment_amount:
  assumes "update_payment d i ureq pays = (r, pays')" "successful r" "up_amount ureq = Some a"
  shows "\<exists>old e p. findOne (\<lambda>q. pid q = i) pays = Some old \<and> update_expected d old = Some e \<and>
     r_payment r = Some p \<and> pays' = update_first (\<lambda>q. pid q = i) (\<lambda>_. p) pays \<and>
     paidAmount p = Some a \<and> deficit p = Some (max 0 (e - a)) \<and> status p = ledger_status e a"
  using assms
  by (auto simp: update_payment_def successful_def reply_def Let_def
      split: option.splits)

lemma ledger_status_cases:
  "(e \<le> a \<longrightarrow> ledger_status e a = Paid \<and> max 0 (e - a) = 0) \<and>
   (0 < a \<and> a < e \<longrightarrow> ledger_status e a = Partial \<and> max 0 (e - a) = e - a) \<and>
   (a = 0 \<and> 0 < e \<longrightarrow> ledger_status e a = Pending) \<and>
   ledger_status e a \<noteq> Overdue"
  by (auto simp: ledger_status_def)

lemmas ledger_defs =
  create_payment_def resolve_house_number_def create_carried_def carried_def prev_period_def
  update_payment_def update_expected_def apply_body_def ledger_status_def in_period_def
  findOne_def findLatest_def find_house_def find_tenant_def or_zero_def truthy_str_def
  truthy_num_def successful_def reply_def blank_def Let_def

lemmas ex_defs =
  ex_clock_def ex_now_def ex_db_def ex_create_def ex_update_def ex_february_def
  ex_generate_def ex_march_def ex_overdue_def ex_paybill_def ex_receive_def ex_mpesa_def
  ex_bank_def ex_paid_march_def ex_stk_def ex_callback_def

lemmas json_defs =
  truthy_def parse_float_def to_number_def to_string_def less_than_def bank_amount_def
  paybill_untyped_def receive_untyped_def mpesa_confirmation_untyped_def
  mpesa_process_untyped_def bank_webhook_untyped_def processEquityBankPayment_untyped_def
  ex_js_def is_digit_def ex_paybill_json_def ex_receive_json_def ex_mpesa_json_def
  ex_bank_json_def

text \<open>
  C1, as stated, fails where the expected amount is zero: on the rent-free house 102 a
  posting without an amount has a proposed paid amount of 0, and the record is \<open>Paid\<close>, not
  \<open>Pending\<close>, because \<^verbatim>\<open>paidAmount >= expectedAmount\<close> is tested first.
\<close>

theorem zero_payment_on_free_house_is_paid:
  "or_zero (cr_amount (ex_create 2 None)) = 0 \<and>
   map expectedAmount (snd (create_payment (ex_clock ex_now) ex_db (ex_create 2 None) []))
     = [Some 0] \<and>
   map status (snd (create_payment (ex_clock ex_now) ex_db (ex_create 2 None) [])) = [Paid]"
  by (simp add: ledger_defs ex_defs)

text \<open>
  C1 (amended): a successful \<^verbatim>\<open>POST /\<close> appends one record whose expected amount \<open>e\<close> is the
  rent of the house plus the carried-forward deficit and whose paid amount \<open>a\<close> is the amount
  of the request (0 without one); a successful \<^verbatim>\<open>PUT /:id\<close> with an amount \<open>a\<close> recomputes the
  record against its expected amount \<open>e\<close>. In both, the stored deficit is \<open>max 0 (e - a)\<close>;
  \<open>a \<ge> e\<close> gives \<open>Paid\<close> and deficit 0; \<open>0 < a < e\<close> gives \<open>Partial\<close> and deficit \<open>e - a\<close>;
  \<open>a = 0\<close> gives \<open>Pending\<close> when the expected amount is positive; the status is never
  \<open>Overdue\<close>.
\<close>

theorem ledger_calculation:
  "(create_payment clk d req pays = (r, pays') \<and> successful r \<longrightarrow>
      (\<exists>p h c e a. pays' = pays @ [p] \<and> find_house d (house p) = Some h \<and>
         carriedForward p = Some c \<and> e = rentAmount h + c \<and> a = or_zero (cr_amount req) \<and>
         expectedAmount p = Some e \<and> paidAmount p = Some a \<and>
         deficit p = Some (max 0 (e - a)) \<and>
         (e \<le> a \<longrightarrow> status p = Paid \<and> deficit p = Some 0) \<and>
         (0 < a \<and> a < e \<longrightarrow> status p = Partial \<and> deficit p = Some (e - a)) \<and>
         (a = 0 \<and> 0 < e \<longrightarrow> status p = Pending) \<and>
         status p \<noteq> Overdue)) \<and>
   (update_payment d i ureq pays = (r2, pays2) \<and> successful r2 \<and> up_amount ureq = Some a2 \<longrightarrow>
      (\<exists>old e p. findOne (\<lambda>q. pid q = i) pays = Some old \<and> update_expected d old = Some e \<and>
         pays2 = update_first (\<lambda>q. pid q = i) (\<lambda>_. p) pays \<and>
         paidAmount p = Some a2 \<and>
         deficit p = Some (max 0 (e - a2)) \<and>
         (e \<le> a2 \<longrightarrow> status p = Paid \<and> deficit p = Some 0) \<and>
         (0 < a2 \<and> a2 < e \<longrightarrow> status p = Partial \<and> deficit p = Some (e - a2)) \<and>
         (a2 = 0 \<and> 0 < e \<longrightarrow> status p = Pending) \<and>
         status p \<noteq> Overdue))"
proof (intro conjI impI)
  assume "create_payment clk d req pays = (r, pays') \<and> successful r"
  then obtain p h c where p: "pays' = pays @ [p]" "find_house d (house p) = Some h"
    "carriedForward p = Some c" "expectedAmount p = Some (rentAmount h + c)"
    "paidAmount p = Some (or_zero (cr_amount req))"
    "deficit p = Some (max 0 (rentAmount h + c - or_zero (cr_amount req)))"
    "status p = ledger_status (rentAmount h + c) (or_zero (cr_amount req))"
    using create_payment_created by blast
  from p ledger_status_cases [of "rentAmount h + c" "or_zero (cr_amount req)"]
  show "\<exists>p h c e a. pays' = pays @ [p] \<and> find_house d (house p) = Some h \<and>
         carriedForward p = Some c \<and> e = rentAmount h + c \<and> a = or_zero (cr_amount req) \<and>
         expectedAmount p = Some e \<and> paidAmount p = Some a \<and>
         deficit p = Some (max 0 (e - a)) \<and>
         (e \<le> a \<longrightarrow> status p = Paid \<and> deficit p = Some 0) \<and>
         (0 < a \<and> a < e \<longrightarrow> status p = Partial \<and> deficit p = Some (e - a)) \<and>
         (a = 0 \<and> 0 < e \<longrightarrow> status p = Pending) \<and>
         status p \<noteq> Overdue"
    by (intro exI [of _ p] exI [of _ h] exI [of _ c] exI [of _ "rentAmount h + c"]
        exI [of _ "or_zero (cr_amount req)"]) simp
next
  assume "update_payment d i ureq pays = (r2, pays2) \<and> successful r2 \<and> up_amount ureq = Some a2"
  then obtain old e p where p: "findOne (\<lambda>q. pid q = i) pays = Some old"
    "update_expected d old = Some e" "pays2 = update_first (\<lambda>q. pid q = i) (\<lambda>_. p) pays"
    "paidAmount p = Some a2" "deficit p = Some (max 0 (e - a2))" "status p = ledger_status e a2"
    using update_payment_amount by blast
  from p ledger_status_cases [of e a2]
  show "\<exists>old e p. findOne (\<lambda>q. pid q = i) pays = Some old \<and> update_expected d old = Some e \<and>
         pays2 = update_first (\<lambda>q. pid q = i) (\<lambda>_. p) pays \<and>
         paidAmount p = Some a2 \<and>
         deficit p = Some (max 0 (e - a2)) \<and>
         (e \<le> a2 \<longrightarrow> status p = Paid \<and> deficit p = Some 0) \<and>
         (0 < a2 \<and> a2 < e \<longrightarrow> status p = Partial \<and> deficit p = Some (e - a2)) \<and>
         (a2 = 0 \<and> 0 < e \<longrightarrow> status p = Pending) \<and>
         status p \<noteq> Overdue"
    by (intro exI [of _ old] exI [of _ e] exI [of _ p]) simp
qed

text \<open>With 400 carried over from February, 800 posted for March against 1600 leaves a partial
  record with a deficit of 800; raising the February record to 1200 settles it.\<close>

theorem ledger_calculation_witness:
  "let out = create_payment (ex_clock ex_now) ex_db (ex_create 1 (Some 800)) [ex_february];
       out2 = update_payment ex_db 0 (ex_update 1200) [ex_february]
   in successful (fst out) \<and> successful (fst out2) \<and>
      up_amount (ex_update 1200) = Some 1200 \<and>
      map expectedAmount (snd out) = [Some 1200, Some 1600] \<and>
      map status (snd out) = [Partial, Partial] \<and>
      map deficit (snd out) = [Some 400, Some 800] \<and>
      map status (snd out2) = [Paid] \<and> map deficit (snd out2) = [Some 0]"
  using ledger_calculation [of "ex_clock ex_now" ex_db "ex_create 1 (Some 800)" "[ex_february]"
      "fst (create_payment (ex_clock ex_now) ex_db (ex_create 1 (Some 800)) [ex_february])"
      "snd (create_payment (ex_clock ex_now) ex_db (ex_create 1 (Some 800)) [ex_february])"
      0 "ex_update 1200"
      "fst (update_payment ex_db 0 (ex_update 1200) [ex_february])"
      "snd (update_payment ex_db 0 (ex_update 1200) [ex_february])" 1200]
  by (simp add: ledger_defs ex_defs)

section \<open>Carry-forward lookup and the records of the ledger entry points\<close>

lemma prev_of_next:
  "1 \<le> m \<Longrightarrow> m \<le> 12 \<Longrightarrow>
   prev_period (if m = 12 then 1 else m + 1) (if m = 12 then y + 1 else y) = (m, y)"
  by (simp add: prev_period_def)

lemma prev_period_differs: "prev_period m y \<noteq> (m, y)"
  by (simp add: prev_period_def Let_def)

lemma find_append_none:
  "\<forall>x\<in>set xs. \<not> q x \<Longrightarrow> find q (xs @ ys) = find q ys"
  by (induction xs) auto

lemma findLatest_last_match:
  "\<forall>x\<in>set after. \<not> q x \<Longrightarrow> q x \<Longrightarrow> findLatest q (before @ x # after) = Some x"
  by (simp add: findLatest_def find_append_none)

lemma findLatest_append_none:
  "\<forall>x\<in>set new. \<not> q x \<Longrightarrow> findLatest q (xs @ new) = findLatest q xs"
  by (simp add: findLatest_def find_append_none)

lemma carried_latest:
  assumes "prev_period m' y' = (m, y)" "in_period t h m y prev"
    "\<forall>p\<in>set after. \<not> in_period t h m y p" "deficit prev = Some D" "0 < D"
  shows "carried (before @ prev # after) t h m' y' = D"
  using assms by (simp add: carried_def findLatest_last_match)

lemma carried_append_target:
  assumes "\<forall>p\<in>set new. month p = Some m \<and> year p = Some y"
  shows "carried (pays @ new) t h m y = carried pays t h m y"
proof -
  obtain pm py where pp: "prev_period m y = (pm, py)" by (cases "prev_period m y")
  with prev_period_differs [of m y] have "(pm, py) \<noteq> (m, y)" by simp
  with assms have "\<forall>p\<in>set new. \<not> in_period t h pm py p"
    by (auto simp: in_period_def)
  then show ?thesis
    by (simp add: carried_def pp findLatest_append_none)
qed


lemma find_house_id: "find_house d i = Some hs \<Longrightarrow> i = Some (h_id hs)"
  by (auto simp: find_house_def findOne_def find_Some_iff split: option.splits)

lemma generated_payment_fields:
  "tenant (generated_payment clk M Y pct grace pays tn hs) = Some (t_id tn)"
  "house (generated_payment clk M Y pct grace pays tn hs) = Some (h_id hs)"
  "month (generated_payment clk M Y pct grace pays tn hs) = Some M"
  "year (generated_payment clk M Y pct grace pays tn hs) = Some Y"
  "paidAmount (generated_payment clk M Y pct grace pays tn hs) = Some 0"
  "expectedAmount (generated_payment clk M Y pct grace pays tn hs)
     = Some (rentAmount hs + carried pays (t_id tn) (h_id hs) M Y)"
  "deficit (generated_payment clk M Y pct grace pays tn hs)
     = Some (rentAmount hs + carried pays (t_id tn) (h_id hs) M Y)"
  "carriedForward (generated_payment clk M Y pct grace pays tn hs)
     = Some (carried pays (t_id tn) (h_id hs) M Y)"
  by (simp_all add: generated_payment_def Let_def)

lemma generated_payment_store:
  assumes "carried pays' (t_id tn) (h_id hs) M Y = carried pays (t_id tn) (h_id hs) M Y"
  shows "(generated_payment clk M Y pct grace pays' tn hs)\<lparr>pid := 0\<rparr>
       = (generated_payment clk M Y pct grace pays tn hs)\<lparr>pid := 0\<rparr>"
  using assms by (simp add: generated_payment_def Let_def)

lemma same_but_pid:
  assumes "p\<lparr>pid := 0\<rparr> = q\<lparr>pid := 0\<rparr>"
  shows "tenant p = tenant q" "house p = house q" "month p = month q" "year p = year q"
    "paidAmount p = paidAmount q" "expectedAmount p = expectedAmount q"
    "deficit p = deficit q" "carriedForward p = carriedForward q" "status p = status q"
    "lateFee p = lateFee q" "dueDate p = dueDate q"
proof -
  have "tenant (p\<lparr>pid := 0\<rparr>) = tenant (q\<lparr>pid := 0\<rparr>)" using assms by simp
  then show "tenant p = tenant q" by simp
  have "house (p\<lparr>pid := 0\<rparr>) = house (q\<lparr>pid := 0\<rparr>)" using assms by simp
  then show "house p = house q" by simp
  have "month (p\<lparr>pid := 0\<rparr>) = month (q\<lparr>pid := 0\<rparr>)" using assms by simp
  then show "month p = month q" by simp
  have "year (p\<lparr>pid := 0\<rparr>) = year (q\<lparr>pid := 0\<rparr>)" using assms by simp
  then show "year p = year q" by simp
  have "paidAmount (p\<lparr>pid := 0\<rparr>) = paidAmount (q\<lparr>pid := 0\<rparr>)" using assms by simp
  then show "paidAmount p = paidAmount q" by simp
  have "expectedAmount (p\<lparr>pid := 0\<rparr>) = expectedAmount (q\<lparr>pid := 0\<rparr>)" using assms by simp
  then show "expectedAmount p = expectedAmount q" by simp
  have "deficit (p\<lparr>pid := 0\<rparr>) = deficit (q\<lparr>pid := 0\<rparr>)" using assms by simp
  then show "deficit p = deficit q" by simp
  have "carriedForward (p\<lparr>pid := 0\<rparr>) = carriedForward (q\<lparr>pid := 0\<rparr>)" using assms by simp
  then show "carriedForward p = carriedForward q" by simp
  have "status (p\<lparr>pid := 0\<rparr>) = status (q\<lparr>pid := 0\<rparr>)" using assms by simp
  then show "status p = status q" by simp
  have "lateFee (p\<lparr>pid := 0\<rparr>) = lateFee (q\<lparr>pid := 0\<rparr>)" using assms by simp
  then show "lateFee p = lateFee q" by simp
  have "dueDate (p\<lparr>pid := 0\<rparr>) = dueDate (q\<lparr>pid := 0\<rparr>)" using assms by simp
  then show "dueDate p = dueDate q" by simp
qed

lemma generate_fold_records:
  "\<exists>new errs. fold (generate_step clk d M Y pct grace) ts (pays, 0, []) = (pays @ new, length new, errs)
     \<and> (\<forall>p\<in>set new. \<exists>tn hs. tn \<in> set ts \<and> find_house d (t_house tn) = Some hs \<and>
           p\<lparr>pid := 0\<rparr> = (generated_payment clk M Y pct grace pays tn hs)\<lparr>pid := 0\<rparr>)"
proof (induction ts rule: rev_induct)
  case Nil
  show ?case by simp
next
  case (snoc tn ts)
  then obtain new errs where
    f: "fold (generate_step clk d M Y pct grace) ts (pays, 0, []) = (pays @ new, length new, errs)"
    and q: "\<forall>p\<in>set new. \<exists>tn hs. tn \<in> set ts \<and> find_house d (t_house tn) = Some hs \<and>
           p\<lparr>pid := 0\<rparr> = (generated_payment clk M Y pct grace pays tn hs)\<lparr>pid := 0\<rparr>"
    by blast
  from q have per: "\<forall>p\<in>set new. month p = Some M \<and> year p = Some Y"
    using same_but_pid(3,4) generated_payment_fields(3,4) by metis
  from q have q': "\<forall>p\<in>set new. \<exists>tn' hs. tn' \<in> set (ts @ [tn]) \<and>
      find_house d (t_house tn') = Some hs \<and>
      p\<lparr>pid := 0\<rparr> = (generated_payment clk M Y pct grace pays tn' hs)\<lparr>pid := 0\<rparr>"
    by (metis UnCI set_append)
  have st: "fold (generate_step clk d M Y pct grace) (ts @ [tn]) (pays, 0, [])
      = generate_step clk d M Y pct grace tn (pays @ new, length new, errs)"
    using f by simp
  show ?case
  proof (cases "find_house d (t_house tn)")
    case None
    then have "generate_step clk d M Y pct grace tn (pays @ new, length new, errs)
        = (pays @ new, length new, errs)"
      by (simp add: generate_step_def)
    with st q' show ?thesis by metis
  next
    case (Some hs)
    show ?thesis
    proof (cases "findOne (in_period (t_id tn) (h_id hs) M Y) (pays @ new)")
      case ex: (Some e)
      with Some have "generate_step clk d M Y pct grace tn (pays @ new, length new, errs)
          = (pays @ new, length new, errs @ [t_id tn])"
        by (simp add: generate_step_def)
      with st q' show ?thesis by metis
    next
      case None
      let ?p = "generated_payment clk M Y pct grace (pays @ new) tn hs"
      have st': "generate_step clk d M Y pct grace tn (pays @ new, length new, errs)
          = (pays @ (new @ [?p]), length (new @ [?p]), errs)"
        using Some None by (simp add: generate_step_def)
      have eq: "?p\<lparr>pid := 0\<rparr> = (generated_payment clk M Y pct grace pays tn hs)\<lparr>pid := 0\<rparr>"
        by (rule generated_payment_store) (rule carried_append_target [OF per])
      have "\<forall>p\<in>set (new @ [?p]). \<exists>tn' hs. tn' \<in> set (ts @ [tn]) \<and>
           find_house d (t_house tn') = Some hs \<and>
           p\<lparr>pid := 0\<rparr> = (generated_payment clk M Y pct grace pays tn' hs)\<lparr>pid := 0\<rparr>"
      proof
        fix p assume "p \<in> set (new @ [?p])"
        then consider "p \<in> set new" | "p = ?p" by auto
        then show "\<exists>tn' hs. tn' \<in> set (ts @ [tn]) \<and>
           find_house d (t_house tn') = Some hs \<and>
           p\<lparr>pid := 0\<rparr> = (generated_payment clk M Y pct grace pays tn' hs)\<lparr>pid := 0\<rparr>"
        proof cases
          case 1
          with q' show ?thesis by blast
        next
          case 2
          have "tn \<in> set (ts @ [tn])" by simp
          with Some eq 2 show ?thesis by blast
        qed
      qed
      with st st' show ?thesis by metis
    qed
  qed
qed


lemma create_payment_record:
  assumes "create_payment clk d req pays = (r, pays @ [p])"
  shows "\<exists>req' hs. find_house d (house p) = Some hs \<and> tenant p = cr_tenant req' \<and>
     month p = cr_month req' \<and> year p = cr_year req' \<and>
     carriedForward p = Some (create_carried pays req' hs) \<and>
     expectedAmount p = Some (rentAmount hs + create_carried pays req' hs)"
proof (cases "resolve_house_number d req")
  case None
  with assms show ?thesis by (simp add: create_payment_def)
next
  case (Some req')
  show ?thesis
  proof (cases "find_house d (cr_house req')")
    case None
    with Some assms show ?thesis by (simp add: create_payment_def find_house_def)
  next
    case hs: (Some hs)
    with Some assms show ?thesis
      by (intro exI [of _ req'] exI [of _ hs]) (auto simp: create_payment_def find_house_def Let_def)
  qed
qed

lemma generate_monthly_rent_records:
  assumes "generate_monthly_rent clk d req pays = (res, pays @ new)" "p \<in> set new"
  shows "\<exists>M Y pct grace tn hs. find_house d (t_house tn) = Some hs \<and>
     p\<lparr>pid := 0\<rparr> = (generated_payment clk M Y pct grace pays tn hs)\<lparr>pid := 0\<rparr>"
proof -
  define M where "M = (case g_month req of None \<Rightarrow> getMonth clk (now clk) + 1 | Some m \<Rightarrow> m)"
  define Y where "Y = (case g_year req of None \<Rightarrow> getFullYear clk (now clk)
                        | Some y \<Rightarrow> if y = 0 then getFullYear clk (now clk) else y)"
  define pct where "pct = (case g_lateFeePercentage req of None \<Rightarrow> 5 | Some v \<Rightarrow> v)"
  define grace where "grace = (case g_gracePeriodDays req of None \<Rightarrow> 5 | Some v \<Rightarrow> v)"
  define ts where "ts = filter (\<lambda>t. t_status t = Active \<and> t_house t \<noteq> None) (tenants d)"
  obtain new' errs where f: "fold (generate_step clk d M Y pct grace) ts (pays, 0, [])
      = (pays @ new', length new', errs)"
    and q: "\<forall>p\<in>set new'. \<exists>tn hs. tn \<in> set ts \<and> find_house d (t_house tn) = Some hs \<and>
           p\<lparr>pid := 0\<rparr> = (generated_payment clk M Y pct grace pays tn hs)\<lparr>pid := 0\<rparr>"
    using generate_fold_records by blast
  have "generate_monthly_rent clk d req pays
      = (\<lparr>generated = length new', errors = length errs, details = errs\<rparr>, pays @ new')"
    using f by (simp add: generate_monthly_rent_def M_def Y_def pct_def grace_def ts_def)
  with assms have "new = new'" by simp
  with q assms(2) show ?thesis by blast
qed

section \<open>Monthly rent generator\<close>

lemma find_append:
  "find q (xs @ ys) = (case find q xs of None \<Rightarrow> find q ys | Some x \<Rightarrow> Some x)"
  by (induction xs) auto










section \<open>Overdue sweep\<close>

lemma sweep_payment_status: "status (sweep_payment d pct p) = Overdue"
  by (simp add: sweep_payment_def split: option.splits)

lemma swept_not_selected: "\<not> sweeps clk grace (sweep_payment d pct p)"
  by (simp add: sweeps_def sweep_payment_status)

lemma sweep_step_stable:
  "\<not> sweeps clk grace (if sweeps clk grace p then sweep_payment d pct p else p)"
  by (simp add: swept_not_selected)

text \<open>What the sweep does to each record: a pending or partial record whose due date plus
  the grace period lies before now becomes overdue, and its late fee, if it is 0 and the
  house resolves, becomes the rent of the house times the percentage over 100; every other
  record is unchanged.\<close>

lemma check_overdue_records:
  assumes "check_overdue clk d req pays = (n, pays')"
    and "pct = (case od_lateFeePercentage req of None \<Rightarrow> 5 | Some v \<Rightarrow> v)"
    and "grace = (case od_gracePeriodDays req of None \<Rightarrow> 5 | Some v \<Rightarrow> v)"
  shows "length pays' = length pays \<and> n = length (filter (sweeps clk grace) pays) \<and>
    (\<forall>i<length pays.
       if sweeps clk grace (pays ! i)
       then status (pays' ! i) = Overdue \<and>
         lateFee (pays' ! i) =
           (case (if lateFee (pays ! i) = Some 0 then find_house d (house (pays ! i)) else None) of
              Some hs \<Rightarrow> Some ((rentAmount hs * pct) / 100)
            | None \<Rightarrow> lateFee (pays ! i))
       else pays' ! i = pays ! i)"
  using assms
  by (auto simp: check_overdue_def Let_def sweep_payment_def split: option.splits)

text \<open>
  C5: the sweep takes the late fee from the rent of the house, not from the expected amount
  of the record. The pending March record of house 101 expects 1600 (rent 1200 plus 400
  carried forward) and was due ten days ago; a sweep with a grace period of 5 days and a
  percentage of 5 makes it overdue with a late fee of 60, where 5 percent of the expected
  amount is 80, the fee the generator charges on the same record.
\<close>

theorem sweep_fee_on_rent_only:
  "check_overdue (ex_clock ex_now) ex_db ex_overdue [ex_march]
     = (1, [ex_march\<lparr>lateFee := Some 60, status := Overdue\<rparr>]) \<and>
   expectedAmount ex_march = Some 1600 \<and> (1600 * 5) / 100 = (80::rat)"
  by (simp add: check_overdue_def sweeps_def sweep_payment_def add_days_def
      ledger_defs ex_defs)

text \<open>
  C9: a second sweep with the same clock and parameters over the result of a first one
  updates no record and returns the collection as the first sweep left it: statuses and
  late fees are those of a single run.
\<close>

theorem sweep_idempotent:
  "check_overdue clk d req (snd (check_overdue clk d req pays))
     = (0, snd (check_overdue clk d req pays))"
  by (simp add: check_overdue_def Let_def sweep_step_stable filter_map o_def)

section \<open>Ingestion channels\<close>

lemmas channel_defs =
  paybill_def receive_def mpesa_confirmation_def mpesa_process_def mpesa_ack_def
  bank_webhook_def processEquityBankPayment_def bank_ack_def bank_status_def
  house_by_number_def tenant_by_account_def paid_in_period_def rent_status_def or_str_def
  trim_def is_space_def stk_callback_def

lemma paybill_recorded:
  assumes "paybill clk d req pays = (r, pays')" "successful r"
  shows "\<exists>acc amt hs tn p.
     \<not> (truthy_str (pb_paybillNumber req) \<and> truthy_str (configPaybill d)
         \<and> configPaybill d \<noteq> pb_paybillNumber req) \<and>
     pb_accountNumber req = Some acc \<and> acc \<noteq> [] \<and> pb_amount req = Some amt \<and> amt \<noteq> 0 \<and>
     house_by_number d acc = Some (hs, Some tn) \<and>
     (truthy_str (pb_transactionId req) \<longrightarrow>
        findOne (\<lambda>p. transactionId p = pb_transactionId req) pays = None) \<and>
     findOne (paid_in_period (t_id tn) (h_id hs) (getMonth clk (now clk) + 1)
        (getFullYear clk (now clk))) pays = None \<and>
     pays' = pays @ [p] \<and> r_payment r = Some p \<and> code r = 201 \<and>
     r_receiptNumber r = receiptNumber p \<and>
     receiptNumber p = Some (RCP (getFullYear clk (now clk)) (length pays + 1)) \<and>
     transactionId p = or_str (pb_transactionId req) (pb_referenceNumber req) \<and>
     tenant p = Some (t_id tn) \<and> house p = Some (h_id hs) \<and>
     month p = Some (getMonth clk (now clk) + 1) \<and> year p = Some (getFullYear clk (now clk)) \<and>
     amount p = Some amt \<and> status p = rent_status amt hs \<and>
     expectedAmount p = None \<and> paidAmount p = None \<and> deficit p = None \<and>
     carriedForward p = None"
  using assms
  by (auto simp: paybill_def successful_def reply_def Let_def blank_def
      split: option.splits if_splits prod.splits)


lemma receive_recorded:
  assumes "receive clk d req pays = (r, pays')" "successful r"
  shows "\<exists>hn amt hs tn p.
     rc_houseNumber req = Some hn \<and> hn \<noteq> [] \<and> rc_amount req = Some amt \<and> amt \<noteq> 0 \<and>
     house_by_number d hn = Some (hs, Some tn) \<and>
     (truthy_str (rc_transactionId req) \<longrightarrow>
        findOne (\<lambda>p. transactionId p = rc_transactionId req) pays = None) \<and>
     findOne (paid_in_period (t_id tn) (h_id hs) (getMonth clk (now clk) + 1)
        (getFullYear clk (now clk))) pays = None \<and>
     pays' = pays @ [p] \<and> r_payment r = Some p \<and> code r = 201 \<and>
     r_receiptNumber r = receiptNumber p \<and>
     receiptNumber p = Some (RCP (getFullYear clk (now clk)) (length pays + 1)) \<and>
     transactionId p = rc_transactionId req \<and>
     tenant p = Some (t_id tn) \<and> house p = Some (h_id hs) \<and>
     month p = Some (getMonth clk (now clk) + 1) \<and> year p = Some (getFullYear clk (now clk)) \<and>
     amount p = Some amt \<and> status p = rent_status amt hs \<and>
     expectedAmount p = None \<and> paidAmount p = None \<and> deficit p = None \<and>
     carriedForward p = None"
  using assms
  by (auto simp: receive_def successful_def reply_def Let_def blank_def
      split: option.splits if_splits prod.splits)

lemma mpesa_recorded:
  assumes "mpesa_process clk d req pays = (Recorded p, pays')"
  shows "\<exists>ref amt tid hs tn.
     BillRefNumber req = Some ref \<and> ref \<noteq> [] \<and> TransAmount req = Some amt \<and> amt \<noteq> 0 \<and>
     TransID req = Some tid \<and> tid \<noteq> [] \<and>
     house_by_number d ref = Some (hs, Some tn) \<and>
     findOne (\<lambda>p. transactionId p = Some tid) pays = None \<and>
     findOne (paid_in_period (t_id tn) (h_id hs) (getMonth clk (TransTime req) + 1)
        (getFullYear clk (TransTime req))) pays = None \<and>
     pays' = pays @ [p] \<and>
     receiptNumber p = Some (RCP (getFullYear clk (TransTime req)) (length pays + 1)) \<and>
     transactionId p = Some tid \<and>
     tenant p = Some (t_id tn) \<and> house p = Some (h_id hs) \<and>
     month p = Some (getMonth clk (TransTime req) + 1) \<and>
     year p = Some (getFullYear clk (TransTime req)) \<and>
     amount p = Some amt \<and> status p = rent_status amt hs \<and>
     expectedAmount p = None \<and> paidAmount p = None \<and> deficit p = None \<and>
     carriedForward p = None"
  using assms
  by (auto simp: mpesa_process_def Let_def blank_def
      split: option.splits if_splits prod.splits)


lemma bank_recorded:
  assumes "processEquityBankPayment clk d req pays = (Recorded p, pays')"
  shows "\<exists>acc amt hs tn.
     bk_accountNumber req = Some acc \<and> acc \<noteq> [] \<and> bk_amount req = Some amt \<and> 0 < amt \<and>
     tenant_by_account d acc = Some (tn, Some hs) \<and>
     (truthy_str (bk_transactionId req) \<longrightarrow>
        findOne (\<lambda>p. transactionId p = bk_transactionId req) pays = None) \<and>
     pays' = pays @ [p] \<and>
     transactionId p = or_str (bk_transactionId req)
        (or_str (bk_referenceNumber req) (bk_transactionId req)) \<and>
     tenant p = Some (t_id tn) \<and> house p = Some (h_id hs) \<and> amount p = Some amt"
  using assms
  by (auto simp: processEquityBankPayment_def Let_def blank_def or_zero_def
      split: option.splits if_splits prod.splits)

lemma findOne_appended:
  assumes "findOne q pays = None" "q p"
  shows "findOne q (pays @ [p]) = Some p"
  using assms by (simp add: findOne_def find_append)

lemma or_str_truthy: "truthy_str a \<Longrightarrow> or_str a b = a"
  by (simp add: or_str_def)

lemma paybill_replay:
  assumes "paybill clk d req pays = (r1, pays1)" "successful r1"
    "truthy_str (pb_transactionId req)"
  shows "paybill clk' d req pays1
      = ((reply 400 TransactionIdExists)\<lparr>r_receiptNumber := r_receiptNumber r1\<rparr>, pays1)
    \<and> r_receiptNumber r1 \<noteq> None \<and> length pays1 = Suc (length pays)"
proof -
  from paybill_recorded [OF assms(1,2)] obtain acc amt hs tn p where
    g: "\<not> (truthy_str (pb_paybillNumber req) \<and> truthy_str (configPaybill d)
         \<and> configPaybill d \<noteq> pb_paybillNumber req)"
      "pb_accountNumber req = Some acc" "acc \<noteq> []" "pb_amount req = Some amt" "amt \<noteq> 0"
      "house_by_number d acc = Some (hs, Some tn)"
    and t: "truthy_str (pb_transactionId req) \<longrightarrow>
        findOne (\<lambda>p. transactionId p = pb_transactionId req) pays = None"
    and p: "pays1 = pays @ [p]" "r_receiptNumber r1 = receiptNumber p"
      "receiptNumber p = Some (RCP (getFullYear clk (now clk)) (length pays + 1))"
      "transactionId p = or_str (pb_transactionId req) (pb_referenceNumber req)"
    by blast
  from p(4) assms(3) have "transactionId p = pb_transactionId req"
    by (simp add: or_str_truthy)
  with t assms(3) have "findOne (\<lambda>p. transactionId p = pb_transactionId req) (pays @ [p]) = Some p"
    by (simp add: findOne_appended)
  with g assms(3) p show ?thesis
    by (auto simp: paybill_def)
qed

lemma receive_replay:
  assumes "receive clk d req pays = (r1, pays1)" "successful r1"
    "truthy_str (rc_transactionId req)"
  shows "receive clk' d req pays1 = (reply 400 TransactionIdExists, pays1)
    \<and> length pays1 = Suc (length pays)"
proof -
  from receive_recorded [OF assms(1,2)] obtain hn amt hs tn p where
    g: "rc_houseNumber req = Some hn" "hn \<noteq> []" "rc_amount req = Some amt" "amt \<noteq> 0"
      "house_by_number d hn = Some (hs, Some tn)"
    and t: "truthy_str (rc_transactionId req) \<longrightarrow>
        findOne (\<lambda>p. transactionId p = rc_transactionId req) pays = None"
    and p: "pays1 = pays @ [p]" "transactionId p = rc_transactionId req"
    by blast
  from t assms(3) p(2)
  have "findOne (\<lambda>p. transactionId p = rc_transactionId req) (pays @ [p]) = Some p"
    by (simp add: findOne_appended)
  with g assms(3) p show ?thesis
    by (auto simp: receive_def)
qed

lemma mpesa_replay:
  assumes "mpesa_process clk d req pays = (Recorded p, pays1)"
  shows "mpesa_process clk' d req pays1 = (LogTransactionExists, pays1)
    \<and> length pays1 = Suc (length pays)"
proof -
  from mpesa_recorded [OF assms] obtain ref amt tid hs tn where
    g: "BillRefNumber req = Some ref" "ref \<noteq> []" "TransAmount req = Some amt" "amt \<noteq> 0"
      "TransID req = Some tid" "tid \<noteq> []" "house_by_number d ref = Some (hs, Some tn)"
    and t: "findOne (\<lambda>p. transactionId p = Some tid) pays = None"
    and p: "pays1 = pays @ [p]" "transactionId p = Some tid"
    by blast
  from t p(2) have "findOne (\<lambda>p. transactionId p = Some tid) (pays @ [p]) = Some p"
    by (simp add: findOne_appended)
  with g p show ?thesis
    by (auto simp: mpesa_process_def)
qed

lemma bank_replay:
  assumes "processEquityBankPayment clk d req pays = (Recorded p, pays1)"
    "truthy_str (bk_transactionId req)"
  shows "processEquityBankPayment clk' d req pays1 = (LogTransactionExists, pays1)
    \<and> length pays1 = Suc (length pays)"
proof -
  from bank_recorded [OF assms(1)] obtain acc amt hs tn where
    g: "bk_accountNumber req = Some acc" "acc \<noteq> []" "bk_amount req = Some amt" "0 < amt"
      "tenant_by_account d acc = Some (tn, Some hs)"
    and t: "truthy_str (bk_transactionId req) \<longrightarrow>
        findOne (\<lambda>p. transactionId p = bk_transactionId req) pays = None"
    and p: "pays1 = pays @ [p]"
      "transactionId p = or_str (bk_transactionId req)
        (or_str (bk_referenceNumber req) (bk_transactionId req))"
    by blast
  from p(2) assms(2) have "transactionId p = bk_transactionId req"
    by (simp add: or_str_truthy)
  with t assms(2)
  have "findOne (\<lambda>p. transactionId p = bk_transactionId req) (pays @ [p]) = Some p"
    by (simp add: findOne_appended)
  with g assms(2) p show ?thesis
    by (auto simp: processEquityBankPayment_def or_zero_def Let_def)
qed









lemma paybill_untyped_numeric:
  "paybill_untyped js clk d (paybill_json_of r) pays = paybill clk d r pays"
  by (cases "pb_accountNumber r"; cases "pb_amount r")
    (auto simp: paybill_untyped_def paybill_def paybill_json_of_def truthy_def parse_float_def
      to_number_def less_than_def rent_status_def Let_def
      split: option.splits prod.splits)

lemma receive_untyped_numeric:
  "receive_untyped js clk d (receive_json_of r) pays = receive clk d r pays"
  by (cases "rc_houseNumber r"; cases "rc_amount r")
    (auto simp: receive_untyped_def receive_def receive_json_of_def truthy_def parse_float_def
      to_number_def less_than_def rent_status_def Let_def
      split: option.splits prod.splits)

lemma mpesa_confirmation_untyped_numeric:
  "mpesa_confirmation_untyped js clk d (mpesa_json_of r) pays = mpesa_confirmation clk d r pays"
  by (cases "BillRefNumber r"; cases "TransAmount r"; cases "TransID r")
    (auto simp: mpesa_confirmation_untyped_def mpesa_process_untyped_def
      mpesa_confirmation_def mpesa_process_def mpesa_json_of_def truthy_def truthy_str_def
      parse_float_def Let_def split: option.splits prod.splits)

lemma bank_webhook_untyped_numeric:
  "bank_webhook_untyped js clk d (bank_json_of r) pays = bank_webhook clk d r pays"
  by (cases "bk_accountNumber r"; cases "bk_amount r"; cases "bk_transactionDate r")
    (auto simp: bank_webhook_untyped_def processEquityBankPayment_untyped_def bank_amount_def
      bank_webhook_def processEquityBankPayment_def bank_json_of_def truthy_def parse_float_def
      to_string_def or_zero_def Let_def split: option.splits prod.splits)

text \<open>The test of the required fields is a test of truthiness, not of the value: the string
  \<^verbatim>\<open>'0'\<close> passes it, and the pay-bill channel stores a record with amount 0.\<close>

lemma string_zero_amount_is_recorded:
  "truthy (Some (JStr ''0'')) \<and>
   (let out = paybill_untyped ex_js (ex_clock ex_now) ex_db
        (ex_paybill_json (Some (JStr ''101'')) (Some (JStr ''0''))) []
    in code (fst out) = 201 \<and> map amount (snd out) = [Some 0] \<and>
       map status (snd out) = [Partial])"
  by (simp add: json_defs channel_defs ledger_defs ex_defs)

text \<open>A bank notification whose account number is a JSON number and whose amount is a string
  is recorded like one with a string and a number.\<close>

lemma numeric_account_is_resolved:
  "numToString ex_js 1234567890 = ''1234567890'' \<and>
   (let out = bank_webhook_untyped ex_js (ex_clock ex_now) ex_db
        (ex_bank_json (Some (JNum 1234567890)) (Some (JStr ''1200''))) []
    in fst out = bank_ack \<and> map amount (snd (snd out)) = [Some 1200] \<and>
       map tenant (snd (snd out)) = [Some 7] \<and> map status (snd (snd out)) = [Paid])"
  by (simp add: json_defs channel_defs ledger_defs ex_defs)

text \<open>
  C7, as stated, fails on the webhook channels: an M-Pesa confirmation without an amount is
  answered with the success acknowledgement, like every confirmation, and is not even
  logged.
\<close>

theorem confirmation_without_amount_is_acknowledged:
  "\<not> truthy (mj_TransAmount (ex_mpesa_json (Some (JStr ''101'')) None)) \<and>
   mpesa_confirmation_untyped ex_js (ex_clock ex_now) ex_db
       (ex_mpesa_json (Some (JStr ''101'')) None) []
     = (mpesa_ack, Ignored, []) \<and>
   successful mpesa_ack \<and> r_resultCode mpesa_ack = Some 0"
  by (simp add: json_defs channel_defs ledger_defs ex_defs)

text \<open>
  C7 (amended): a notification whose account reference or amount is absent or falsy in
  JavaScript (\<^verbatim>\<open>null\<close>, \<^verbatim>\<open>false\<close>, the number 0, the empty string) creates no Payment Record
  on any of the four channels, whatever the string conversions of the runtime are. The
  pay-bill and generic webhook channels answer it with HTTP 400; the M-Pesa confirmation and
  the bank webhook acknowledge it with their success response, the confirmation logging
  nothing and the bank webhook logging invalid data. The bank webhook drops in the same way
  an amount that \<^verbatim>\<open>parseFloat\<close> reads as \<^verbatim>\<open>NaN\<close> or as a number that is not positive.
\<close>

theorem missing_fields_create_nothing:
  "(\<not> truthy (pj_accountNumber preq) \<or> \<not> truthy (pj_amount preq) \<longrightarrow>
      code (fst (paybill_untyped js clk d preq pays)) = 400 \<and>
      snd (paybill_untyped js clk d preq pays) = pays) \<and>
   (\<not> truthy (rj_houseNumber rreq) \<or> \<not> truthy (rj_amount rreq) \<longrightarrow>
      receive_untyped js clk d rreq pays = (reply 400 HouseNumberAndAmountRequired, pays)) \<and>
   (\<not> truthy (mj_BillRefNumber mreq) \<or> \<not> truthy (mj_TransAmount mreq) \<longrightarrow>
      mpesa_confirmation_untyped js clk d mreq pays = (mpesa_ack, Ignored, pays) \<and>
      successful mpesa_ack) \<and>
   (\<not> truthy (bj_accountNumber breq) \<or> \<not> truthy (bj_amount breq) \<or>
    (\<exists>v. bj_amount breq = Some v \<and> (\<forall>a. parse_float js v = Some a \<longrightarrow> a \<le> 0)) \<longrightarrow>
      bank_webhook_untyped js clk d breq pays = (bank_ack, LogInvalidData, pays) \<and>
      successful bank_ack)"
proof (intro conjI impI)
  assume "\<not> truthy (pj_accountNumber preq) \<or> \<not> truthy (pj_amount preq)"
  then show "code (fst (paybill_untyped js clk d preq pays)) = 400"
    by (auto simp: paybill_untyped_def reply_def)
next
  assume "\<not> truthy (pj_accountNumber preq) \<or> \<not> truthy (pj_amount preq)"
  then show "snd (paybill_untyped js clk d preq pays) = pays"
    by (auto simp: paybill_untyped_def)
next
  assume "\<not> truthy (rj_houseNumber rreq) \<or> \<not> truthy (rj_amount rreq)"
  then show "receive_untyped js clk d rreq pays = (reply 400 HouseNumberAndAmountRequired, pays)"
    by (auto simp: receive_untyped_def)
next
  assume "\<not> truthy (mj_BillRefNumber mreq) \<or> \<not> truthy (mj_TransAmount mreq)"
  then show "mpesa_confirmation_untyped js clk d mreq pays = (mpesa_ack, Ignored, pays)"
    by (auto simp: mpesa_confirmation_untyped_def mpesa_process_untyped_def)
next
  show "successful mpesa_ack" by (simp add: successful_def mpesa_ack_def reply_def)
next
  assume a: "\<not> truthy (bj_accountNumber breq) \<or> \<not> truthy (bj_amount breq) \<or>
    (\<exists>v. bj_amount breq = Some v \<and> (\<forall>a. parse_float js v = Some a \<longrightarrow> a \<le> 0))"
  show "bank_webhook_untyped js clk d breq pays = (bank_ack, LogInvalidData, pays)"
  proof (cases "bank_amount js (bj_amount breq)")
    case None
    then show ?thesis
      by (cases "bj_accountNumber breq")
        (simp_all add: bank_webhook_untyped_def processEquityBankPayment_untyped_def Let_def)
  next
    case (Some amt)
    from a Some have "\<not> truthy (bj_accountNumber breq) \<or> amt \<le> 0"
      by (auto simp: bank_amount_def split: option.splits if_splits)
    with Some show ?thesis
      by (auto simp: bank_webhook_untyped_def processEquityBankPayment_untyped_def Let_def
          truthy_def split: option.splits)
  qed
next
  show "successful bank_ack" by (simp add: successful_def bank_ack_def reply_def)
qed

text \<open>Eight notifications that fail the test of the required fields, two on each channel:
  amounts that are the number 0, the empty string, absent, not numeric and negative, and
  references that are \<^verbatim>\<open>null\<close>, absent and empty.\<close>

theorem missing_fields_create_nothing_witness:
  "\<not> truthy (Some (JNum 0)) \<and> \<not> truthy (Some (JStr [])) \<and> \<not> truthy None \<and>
   \<not> truthy (Some JNull) \<and>
   parse_float ex_js (JStr ''abc'') = None \<and> parse_float ex_js (JNum (- 5)) = Some (- 5) \<and>
   code (fst (paybill_untyped ex_js (ex_clock ex_now) ex_db
          (ex_paybill_json (Some (JStr ''101'')) (Some (JNum 0))) [ex_february])) = 400 \<and>
   snd (paybill_untyped ex_js (ex_clock ex_now) ex_db
          (ex_paybill_json (Some (JStr ''101'')) (Some (JNum 0))) [ex_february])
     = [ex_february] \<and>
   receive_untyped ex_js (ex_clock ex_now) ex_db
       (ex_receive_json (Some (JStr ''101'')) (Some (JStr []))) [ex_february]
     = (reply 400 HouseNumberAndAmountRequired, [ex_february]) \<and>
   mpesa_confirmation_untyped ex_js (ex_clock ex_now) ex_db
       (ex_mpesa_json (Some (JStr ''101'')) None) [ex_february]
     = (mpesa_ack, Ignored, [ex_february]) \<and>
   bank_webhook_untyped ex_js (ex_clock ex_now) ex_db
       (ex_bank_json (Some (JStr ''1234567890'')) (Some (JStr ''abc''))) [ex_february]
     = (bank_ack, LogInvalidData, [ex_february]) \<and>
   code (fst (paybill_untyped ex_js (ex_clock ex_now) ex_db
          (ex_paybill_json (Some JNull) (Some (JNum 1200))) [ex_february])) = 400 \<and>
   snd (paybill_untyped ex_js (ex_clock ex_now) ex_db
          (ex_paybill_json (Some JNull) (Some (JNum 1200))) [ex_february])
     = [ex_february] \<and>
   receive_untyped ex_js (ex_clock ex_now) ex_db
       (ex_receive_json None (Some (JNum 1200))) [ex_february]
     = (reply 400 HouseNumberAndAmountRequired, [ex_february]) \<and>
   mpesa_confirmation_untyped ex_js (ex_clock ex_now) ex_db
       (ex_mpesa_json (Some (JStr [])) (Some (JNum 1200))) [ex_february]
     = (mpesa_ack, Ignored, [ex_february]) \<and>
   bank_webhook_untyped ex_js (ex_clock ex_now) ex_db
       (ex_bank_json (Some (JStr ''1234567890'')) (Some (JNum (- 5)))) [ex_february]
     = (bank_ack, LogInvalidData, [ex_february])"
proof -
  note t1 = missing_fields_create_nothing [where js = ex_js and clk = "ex_clock ex_now"
      and d = ex_db and pays = "[ex_february]"
      and preq = "ex_paybill_json (Some (JStr ''101'')) (Some (JNum 0))"
      and rreq = "ex_receive_json (Some (JStr ''101'')) (Some (JStr []))"
      and mreq = "ex_mpesa_json (Some (JStr ''101'')) None"
      and breq = "ex_bank_json (Some (JStr ''1234567890'')) (Some (JStr ''abc''))"]
  note t2 = missing_fields_create_nothing [where js = ex_js and clk = "ex_clock ex_now"
      and d = ex_db and pays = "[ex_february]"
      and preq = "ex_paybill_json (Some JNull) (Some (JNum 1200))"
      and rreq = "ex_receive_json None (Some (JNum 1200))"
      and mreq = "ex_mpesa_json (Some (JStr [])) (Some (JNum 1200))"
      and breq = "ex_bank_json (Some (JStr ''1234567890'')) (Some (JNum (- 5)))"]
  show ?thesis
    using t1 t2
    by (simp add: truthy_def truthy_str_def parse_float_def ex_js_def is_digit_def
        ex_paybill_json_def ex_receive_json_def ex_mpesa_json_def ex_bank_json_def)
qed

text \<open>
  C3, as stated, fails on the pay-bill channel: the second submission of a recorded
  notification is answered with HTTP 400, not with a successful response.
\<close>

theorem replayed_paybill_is_rejected:
  "successful (fst (paybill (ex_clock ex_now) ex_db (ex_paybill (Some 1200)) [])) \<and>
   \<not> successful (fst (paybill (ex_clock ex_now) ex_db (ex_paybill (Some 1200))
       (snd (paybill (ex_clock ex_now) ex_db (ex_paybill (Some 1200)) [])))) \<and>
   code (fst (paybill (ex_clock ex_now) ex_db (ex_paybill (Some 1200))
       (snd (paybill (ex_clock ex_now) ex_db (ex_paybill (Some 1200)) [])))) = 400"
  by (simp add: channel_defs ledger_defs ex_defs)

text \<open>
  C3 (amended): on the pay-bill, generic webhook, M-Pesa confirmation and bank webhook
  channels, submitting again a notification that was recorded with an external transaction
  identifier creates no second record. The pay-bill channel answers the duplicate with
  HTTP 400 and the receipt number of the first response; the generic webhook answers it with
  HTTP 400 without a receipt number; the M-Pesa confirmation and the bank webhook acknowledge
  both deliveries and log the duplicate.
\<close>

theorem replayed_transaction_creates_nothing:
  "(paybill clk d preq pays = (r1, pays1) \<and> successful r1 \<and>
      truthy_str (pb_transactionId preq) \<longrightarrow>
      paybill clk' d preq pays1
        = ((reply 400 TransactionIdExists)\<lparr>r_receiptNumber := r_receiptNumber r1\<rparr>, pays1) \<and>
      r_receiptNumber r1 \<noteq> None \<and> length pays1 = Suc (length pays)) \<and>
   (receive clk d rreq pays = (r2, pays2) \<and> successful r2 \<and>
      truthy_str (rc_transactionId rreq) \<longrightarrow>
      receive clk' d rreq pays2 = (reply 400 TransactionIdExists, pays2) \<and>
      length pays2 = Suc (length pays)) \<and>
   (mpesa_confirmation clk d mreq pays = (a3, Recorded p3, pays3) \<longrightarrow>
      a3 = mpesa_ack \<and>
      mpesa_confirmation clk' d mreq pays3 = (mpesa_ack, LogTransactionExists, pays3) \<and>
      length pays3 = Suc (length pays)) \<and>
   (bank_webhook clk d breq pays = (a4, Recorded p4, pays4) \<and>
      truthy_str (bk_transactionId breq) \<longrightarrow>
      a4 = bank_ack \<and>
      bank_webhook clk' d breq pays4 = (bank_ack, LogTransactionExists, pays4) \<and>
      length pays4 = Suc (length pays))"
proof (intro conjI impI)
  assume a: "paybill clk d preq pays = (r1, pays1) \<and> successful r1 \<and>
      truthy_str (pb_transactionId preq)"
  then have r: "paybill clk' d preq pays1
      = ((reply 400 TransactionIdExists)\<lparr>r_receiptNumber := r_receiptNumber r1\<rparr>, pays1)
    \<and> r_receiptNumber r1 \<noteq> None \<and> length pays1 = Suc (length pays)"
    using paybill_replay by blast
  from r show "paybill clk' d preq pays1
      = ((reply 400 TransactionIdExists)\<lparr>r_receiptNumber := r_receiptNumber r1\<rparr>, pays1)"
    by simp
  from r show "r_receiptNumber r1 \<noteq> None" by simp
  from r show "length pays1 = Suc (length pays)" by simp
next
  assume a: "receive clk d rreq pays = (r2, pays2) \<and> successful r2 \<and>
      truthy_str (rc_transactionId rreq)"
  then have r: "receive clk' d rreq pays2 = (reply 400 TransactionIdExists, pays2)
    \<and> length pays2 = Suc (length pays)"
    using receive_replay by blast
  from r show "receive clk' d rreq pays2 = (reply 400 TransactionIdExists, pays2)" by simp
  from r show "length pays2 = Suc (length pays)" by simp
next
  assume a: "mpesa_confirmation clk d mreq pays = (a3, Recorded p3, pays3)"
  then show "a3 = mpesa_ack" by (simp add: mpesa_confirmation_def)
  from a have "mpesa_process clk d mreq pays = (Recorded p3, pays3)"
    by (simp add: mpesa_confirmation_def)
  from mpesa_replay [OF this, of clk']
  show "mpesa_confirmation clk' d mreq pays3 = (mpesa_ack, LogTransactionExists, pays3)"
    and "length pays3 = Suc (length pays)"
    by (simp_all add: mpesa_confirmation_def)
next
  assume a: "bank_webhook clk d breq pays = (a4, Recorded p4, pays4) \<and>
      truthy_str (bk_transactionId breq)"
  then show "a4 = bank_ack" by (simp add: bank_webhook_def)
  from a have "processEquityBankPayment clk d breq pays = (Recorded p4, pays4)"
    "truthy_str (bk_transactionId breq)"
    by (simp_all add: bank_webhook_def)
  from bank_replay [OF this, of clk']
  show "bank_webhook clk' d breq pays4 = (bank_ack, LogTransactionExists, pays4)"
    and "length pays4 = Suc (length pays)"
    by (simp_all add: bank_webhook_def)
qed

text \<open>Each notification for house 101, delivered twice to an empty collection.\<close>

theorem replayed_transaction_creates_nothing_witness:
  "(let out = paybill (ex_clock ex_now) ex_db (ex_paybill (Some 1200)) []
    in successful (fst out) \<and> truthy_str (pb_transactionId (ex_paybill (Some 1200))) \<and>
       length (snd out) = 1 \<and> r_receiptNumber (fst out) = Some (RCP 2024 1) \<and>
       paybill (ex_clock ex_now) ex_db (ex_paybill (Some 1200)) (snd out)
         = ((reply 400 TransactionIdExists)\<lparr>r_receiptNumber := Some (RCP 2024 1)\<rparr>,
            snd out)) \<and>
   (let out = receive (ex_clock ex_now) ex_db (ex_receive (Some 1200)) []
    in successful (fst out) \<and> truthy_str (rc_transactionId (ex_receive (Some 1200))) \<and>
       length (snd out) = 1 \<and>
       receive (ex_clock ex_now) ex_db (ex_receive (Some 1200)) (snd out)
         = (reply 400 TransactionIdExists, snd out)) \<and>
   (let out = mpesa_confirmation (ex_clock ex_now) ex_db (ex_mpesa (Some 1200)) []
    in out = (mpesa_ack, Recorded (last (snd (snd out))), snd (snd out)) \<and>
       length (snd (snd out)) = 1 \<and>
       mpesa_confirmation (ex_clock ex_now) ex_db (ex_mpesa (Some 1200)) (snd (snd out))
         = (mpesa_ack, LogTransactionExists, snd (snd out))) \<and>
   (let out = bank_webhook (ex_clock ex_now) ex_db (ex_bank (Some 1200)) []
    in out = (bank_ack, Recorded (last (snd (snd out))), snd (snd out)) \<and>
       truthy_str (bk_transactionId (ex_bank (Some 1200))) \<and>
       length (snd (snd out)) = 1 \<and>
       bank_webhook (ex_clock ex_now) ex_db (ex_bank (Some 1200)) (snd (snd out))
         = (bank_ack, LogTransactionExists, snd (snd out)))"
proof -
  let ?c = "ex_clock ex_now"
  let ?p = "paybill ?c ex_db (ex_paybill (Some 1200)) []"
  let ?r = "receive ?c ex_db (ex_receive (Some 1200)) []"
  let ?m = "mpesa_confirmation ?c ex_db (ex_mpesa (Some 1200)) []"
  let ?b = "bank_webhook ?c ex_db (ex_bank (Some 1200)) []"
  note t = replayed_transaction_creates_nothing [where clk = ?c and clk' = ?c and d = ex_db
      and pays = "[]" and preq = "ex_paybill (Some 1200)" and ?r1.0 = "fst ?p"
      and ?pays1.0 = "snd ?p" and rreq = "ex_receive (Some 1200)" and ?r2.0 = "fst ?r"
      and ?pays2.0 = "snd ?r" and mreq = "ex_mpesa (Some 1200)" and ?a3.0 = mpesa_ack
      and ?p3.0 = "last (snd (snd ?m))" and ?pays3.0 = "snd (snd ?m)"
      and breq = "ex_bank (Some 1200)" and ?a4.0 = bank_ack
      and ?p4.0 = "last (snd (snd ?b))" and ?pays4.0 = "snd (snd ?b)"]
  have g1: "let out = ?p
    in successful (fst out) \<and> truthy_str (pb_transactionId (ex_paybill (Some 1200))) \<and>
       length (snd out) = 1 \<and> r_receiptNumber (fst out) = Some (RCP 2024 1) \<and>
       paybill ?c ex_db (ex_paybill (Some 1200)) (snd out)
         = ((reply 400 TransactionIdExists)\<lparr>r_receiptNumber := Some (RCP 2024 1)\<rparr>,
            snd out)"
    by (simp add: channel_defs ledger_defs ex_defs)
  have g2: "let out = ?r
    in successful (fst out) \<and> truthy_str (rc_transactionId (ex_receive (Some 1200))) \<and>
       length (snd out) = 1 \<and>
       receive ?c ex_db (ex_receive (Some 1200)) (snd out)
         = (reply 400 TransactionIdExists, snd out)"
    by (simp add: channel_defs ledger_defs ex_defs)
  have g3: "let out = ?m
    in out = (mpesa_ack, Recorded (last (snd (snd out))), snd (snd out)) \<and>
       length (snd (snd out)) = 1 \<and>
       mpesa_confirmation ?c ex_db (ex_mpesa (Some 1200)) (snd (snd out))
         = (mpesa_ack, LogTransactionExists, snd (snd out))"
    by (simp add: channel_defs ledger_defs ex_defs)
  have g4: "let out = ?b
    in out = (bank_ack, Recorded (last (snd (snd out))), snd (snd out)) \<and>
       truthy_str (bk_transactionId (ex_bank (Some 1200))) \<and>
       length (snd (snd out)) = 1 \<and>
       bank_webhook ?c ex_db (ex_bank (Some 1200)) (snd (snd out))
         = (bank_ack, LogTransactionExists, snd (snd out))"
    by (simp add: channel_defs ledger_defs ex_defs)
  show ?thesis using t by - (intro conjI g1 g2 g3 g4)
qed

text \<open>
  C6, as stated, fails on the generic webhook: its rejection names the id of the existing
  record, but carries no receipt number, although the existing record has one.
\<close>

theorem webhook_duplicate_without_receipt:
  "code (fst (receive (ex_clock ex_now) ex_db (ex_receive (Some 1200)) [ex_paid_march])) = 400 \<and>
   message (fst (receive (ex_clock ex_now) ex_db (ex_receive (Some 1200)) [ex_paid_march]))
     = PeriodPaymentExists \<and>
   r_existingPayment (fst (receive (ex_clock ex_now) ex_db (ex_receive (Some 1200))
     [ex_paid_march])) = Some (pid ex_paid_march) \<and>
   r_receiptNumber (fst (receive (ex_clock ex_now) ex_db (ex_receive (Some 1200))
     [ex_paid_march])) = None \<and>
   receiptNumber ex_paid_march = Some (RCP 2024 1)"
  by (simp add: channel_defs ledger_defs ex_defs)

text \<open>
  C6 (amended): when the notification passes the earlier checks and the query for a paid
  record of the tenant, the house and the current period returns a record \<open>e\<close>, the pay-bill
  channel rejects the notification with HTTP 400, the id of \<open>e\<close> and the receipt number of
  \<open>e\<close>, and the generic webhook rejects it with HTTP 400 and the id of \<open>e\<close> only; neither
  creates a record. The bank webhook appends a further record exactly when the reported
  amount differs from the amount of \<open>e\<close>, and otherwise drops the notification.
\<close>

theorem period_duplicate_policy:
  "(\<not> (truthy_str (pb_paybillNumber preq) \<and> truthy_str (configPaybill d)
        \<and> configPaybill d \<noteq> pb_paybillNumber preq) \<and>
    pb_accountNumber preq = Some ref \<and> ref \<noteq> [] \<and> pb_amount preq = Some amt \<and> amt \<noteq> 0 \<and>
    house_by_number d ref = Some (hs, Some tn) \<and>
    (truthy_str (pb_transactionId preq) \<longrightarrow>
       findOne (\<lambda>p. transactionId p = pb_transactionId preq) pays = None) \<and>
    findOne (paid_in_period (t_id tn) (h_id hs) (getMonth clk (now clk) + 1)
       (getFullYear clk (now clk))) pays = Some e \<longrightarrow>
    paybill clk d preq pays
      = ((reply 400 PeriodPaymentExists)\<lparr>r_existingPayment := Some (pid e),
           r_receiptNumber := receiptNumber e\<rparr>, pays)) \<and>
   (rc_houseNumber rreq = Some ref \<and> ref \<noteq> [] \<and> rc_amount rreq = Some amt \<and> amt \<noteq> 0 \<and>
    house_by_number d ref = Some (hs, Some tn) \<and>
    (truthy_str (rc_transactionId rreq) \<longrightarrow>
       findOne (\<lambda>p. transactionId p = rc_transactionId rreq) pays = None) \<and>
    findOne (paid_in_period (t_id tn) (h_id hs) (getMonth clk (now clk) + 1)
       (getFullYear clk (now clk))) pays = Some e \<longrightarrow>
    receive clk d rreq pays
      = ((reply 400 PeriodPaymentExists)\<lparr>r_existingPayment := Some (pid e)\<rparr>, pays)) \<and>
   (bk_accountNumber breq = Some bref \<and> bref \<noteq> [] \<and> bk_amount breq = Some amt \<and> 0 < amt \<and>
    tenant_by_account d bref = Some (tn, Some hs) \<and>
    (truthy_str (bk_transactionId breq) \<longrightarrow>
       findOne (\<lambda>p. transactionId p = bk_transactionId breq) pays = None) \<and>
    paymentDate = (case bk_transactionDate breq of None \<Rightarrow> now clk | Some t \<Rightarrow> t) \<and>
    findOne (paid_in_period (t_id tn) (h_id hs) (getMonth clk paymentDate + 1)
       (getFullYear clk paymentDate)) pays = Some e \<longrightarrow>
    (amount e = Some amt \<longrightarrow>
       bank_webhook clk d breq pays = (bank_ack, LogPeriodExists, pays)) \<and>
    (amount e \<noteq> Some amt \<longrightarrow>
       (\<exists>p. bank_webhook clk d breq pays = (bank_ack, Recorded p, pays @ [p]) \<and>
          amount p = Some amt \<and> tenant p = Some (t_id tn) \<and> house p = Some (h_id hs) \<and>
          month p = Some (getMonth clk paymentDate + 1) \<and>
          year p = Some (getFullYear clk paymentDate))))"
proof (intro conjI impI)
  assume "\<not> (truthy_str (pb_paybillNumber preq) \<and> truthy_str (configPaybill d)
        \<and> configPaybill d \<noteq> pb_paybillNumber preq) \<and>
    pb_accountNumber preq = Some ref \<and> ref \<noteq> [] \<and> pb_amount preq = Some amt \<and> amt \<noteq> 0 \<and>
    house_by_number d ref = Some (hs, Some tn) \<and>
    (truthy_str (pb_transactionId preq) \<longrightarrow>
       findOne (\<lambda>p. transactionId p = pb_transactionId preq) pays = None) \<and>
    findOne (paid_in_period (t_id tn) (h_id hs) (getMonth clk (now clk) + 1)
       (getFullYear clk (now clk))) pays = Some e"
  then show "paybill clk d preq pays
      = ((reply 400 PeriodPaymentExists)\<lparr>r_existingPayment := Some (pid e),
           r_receiptNumber := receiptNumber e\<rparr>, pays)"
    by (auto simp: paybill_def)
next
  assume "rc_houseNumber rreq = Some ref \<and> ref \<noteq> [] \<and> rc_amount rreq = Some amt \<and> amt \<noteq> 0 \<and>
    house_by_number d ref = Some (hs, Some tn) \<and>
    (truthy_str (rc_transactionId rreq) \<longrightarrow>
       findOne (\<lambda>p. transactionId p = rc_transactionId rreq) pays = None) \<and>
    findOne (paid_in_period (t_id tn) (h_id hs) (getMonth clk (now clk) + 1)
       (getFullYear clk (now clk))) pays = Some e"
  then show "receive clk d rreq pays
      = ((reply 400 PeriodPaymentExists)\<lparr>r_existingPayment := Some (pid e)\<rparr>, pays)"
    by (auto simp: receive_def)
next
  assume g: "bk_accountNumber breq = Some bref \<and> bref \<noteq> [] \<and> bk_amount breq = Some amt \<and>
    0 < amt \<and> tenant_by_account d bref = Some (tn, Some hs) \<and>
    (truthy_str (bk_transactionId breq) \<longrightarrow>
       findOne (\<lambda>p. transactionId p = bk_transactionId breq) pays = None) \<and>
    paymentDate = (case bk_transactionDate breq of None \<Rightarrow> now clk | Some t \<Rightarrow> t) \<and>
    findOne (paid_in_period (t_id tn) (h_id hs) (getMonth clk paymentDate + 1)
       (getFullYear clk paymentDate)) pays = Some e"
  assume "amount e = Some amt"
  with g show "bank_webhook clk d breq pays = (bank_ack, LogPeriodExists, pays)"
    by (auto simp: bank_webhook_def processEquityBankPayment_def or_zero_def Let_def)
next
  assume g: "bk_accountNumber breq = Some bref \<and> bref \<noteq> [] \<and> bk_amount breq = Some amt \<and>
    0 < amt \<and> tenant_by_account d bref = Some (tn, Some hs) \<and>
    (truthy_str (bk_transactionId breq) \<longrightarrow>
       findOne (\<lambda>p. transactionId p = bk_transactionId breq) pays = None) \<and>
    paymentDate = (case bk_transactionDate breq of None \<Rightarrow> now clk | Some t \<Rightarrow> t) \<and>
    findOne (paid_in_period (t_id tn) (h_id hs) (getMonth clk paymentDate + 1)
       (getFullYear clk paymentDate)) pays = Some e"
  assume "amount e \<noteq> Some amt"
  with g show "\<exists>p. bank_webhook clk d breq pays = (bank_ack, Recorded p, pays @ [p]) \<and>
          amount p = Some amt \<and> tenant p = Some (t_id tn) \<and> house p = Some (h_id hs) \<and>
          month p = Some (getMonth clk paymentDate + 1) \<and>
          year p = Some (getFullYear clk paymentDate)"
    by (auto simp: bank_webhook_def processEquityBankPayment_def or_zero_def Let_def)
qed

text \<open>March is settled with 1200: pay-bill and generic webhook reject a further payment, the
  bank webhook drops a second 1200 and records 500.\<close>

theorem period_duplicate_policy_witness:
  "findOne (paid_in_period 7 1 3 2024) [ex_paid_march] = Some ex_paid_march \<and>
   paybill (ex_clock ex_now) ex_db (ex_paybill (Some 1200)) [ex_paid_march]
     = ((reply 400 PeriodPaymentExists)\<lparr>r_existingPayment := Some 0,
          r_receiptNumber := Some (RCP 2024 1)\<rparr>, [ex_paid_march]) \<and>
   receive (ex_clock ex_now) ex_db (ex_receive (Some 1200)) [ex_paid_march]
     = ((reply 400 PeriodPaymentExists)\<lparr>r_existingPayment := Some 0\<rparr>, [ex_paid_march]) \<and>
   bank_webhook (ex_clock ex_now) ex_db (ex_bank (Some 1200)) [ex_paid_march]
     = (bank_ack, LogPeriodExists, [ex_paid_march]) \<and>
   map amount (snd (snd (bank_webhook (ex_clock ex_now) ex_db (ex_bank (Some 500))
       [ex_paid_march]))) = [Some 1200, Some 500]"
proof -
  let ?c = "ex_clock ex_now"
  let ?tn = "\<lparr>t_id = 7, t_status = Active, t_house = Some 1,
               bankAccountNumber = Some ''1234567890''\<rparr>"
  let ?hs = "\<lparr>h_id = 1, houseNumber = ''101'', rentAmount = 1200, h_tenant = Some 7\<rparr>"
  note t1 = period_duplicate_policy [where clk = ?c and d = ex_db and pays = "[ex_paid_march]"
      and preq = "ex_paybill (Some 1200)" and rreq = "ex_receive (Some 1200)"
      and breq = "ex_bank (Some 1200)" and ref = "''101''" and bref = "''1234567890''"
      and amt = 1200 and hs = ?hs and tn = ?tn and e = ex_paid_march
      and paymentDate = ex_now]
  note t2 = period_duplicate_policy [where clk = ?c and d = ex_db and pays = "[ex_paid_march]"
      and preq = "ex_paybill (Some 500)" and rreq = "ex_receive (Some 500)"
      and breq = "ex_bank (Some 500)" and ref = "''101''" and bref = "''1234567890''"
      and amt = 500 and hs = ?hs and tn = ?tn and e = ex_paid_march
      and paymentDate = ex_now]
  have g0: "findOne (paid_in_period 7 1 3 2024) [ex_paid_march] = Some ex_paid_march"
    by (simp add: channel_defs ledger_defs ex_defs)
  have g1: "paybill ?c ex_db (ex_paybill (Some 1200)) [ex_paid_march]
     = ((reply 400 PeriodPaymentExists)\<lparr>r_existingPayment := Some 0,
          r_receiptNumber := Some (RCP 2024 1)\<rparr>, [ex_paid_march])"
    by (simp add: channel_defs ledger_defs ex_defs)
  have g2: "receive ?c ex_db (ex_receive (Some 1200)) [ex_paid_march]
     = ((reply 400 PeriodPaymentExists)\<lparr>r_existingPayment := Some 0\<rparr>, [ex_paid_march])"
    by (simp add: channel_defs ledger_defs ex_defs)
  have g3: "bank_webhook ?c ex_db (ex_bank (Some 1200)) [ex_paid_march]
     = (bank_ack, LogPeriodExists, [ex_paid_march])"
    by (simp add: channel_defs ledger_defs ex_defs)
  have g4: "map amount (snd (snd (bank_webhook ?c ex_db (ex_bank (Some 500))
       [ex_paid_march]))) = [Some 1200, Some 500]"
    by (simp add: channel_defs ledger_defs ex_defs)
  show ?thesis using t1 t2 by - (intro conjI g0 g1 g2 g3 g4)
qed

section \<open>Carry-forward across the entry points\<close>

lemma bank_recorded_fields:
  assumes "processEquityBankPayment clk d req pays = (Recorded p, pays')"
    and "bk_accountNumber req = Some ref" "tenant_by_account d ref = Some (tn, Some hs)"
    and "pd = (case bk_transactionDate req of None \<Rightarrow> now clk | Some t \<Rightarrow> t)"
  shows "month p = Some (getMonth clk pd + 1) \<and> year p = Some (getFullYear clk pd) \<and>
     carriedForward p
       = Some (carried pays (t_id tn) (h_id hs) (getMonth clk pd + 1) (getFullYear clk pd)) \<and>
     expectedAmount p
       = Some (rentAmount hs
           + carried pays (t_id tn) (h_id hs) (getMonth clk pd + 1) (getFullYear clk pd))"
  using assms
  by (auto simp: processEquityBankPayment_def Let_def blank_def or_zero_def
      split: option.splits if_splits prod.splits)

lemma bank_recorded_ledger:
  assumes "processEquityBankPayment clk d req pays = (Recorded p, pays')"
  shows "\<exists>ref hs tn m y.
     tenant_by_account d ref = Some (tn, Some hs) \<and> pays' = pays @ [p] \<and>
     tenant p = Some (t_id tn) \<and> house p = Some (h_id hs) \<and>
     month p = Some m \<and> year p = Some y \<and>
     carriedForward p = Some (carried pays (t_id tn) (h_id hs) m y) \<and>
     expectedAmount p = Some (rentAmount hs + carried pays (t_id tn) (h_id hs) m y)"
proof -
  from bank_recorded [OF assms] obtain ref hs tn where
    b: "bk_accountNumber req = Some ref" "tenant_by_account d ref = Some (tn, Some hs)"
      "pays' = pays @ [p]" "tenant p = Some (t_id tn)" "house p = Some (h_id hs)"
    by blast
  from bank_recorded_fields [OF assms b(1,2) refl] b show ?thesis by blast
qed

lemma bank_unrecorded:
  assumes "processEquityBankPayment clk d req pays = (out, pays')" "\<forall>p. out \<noteq> Recorded p"
  shows "pays' = pays"
  using assms
  by (auto simp: processEquityBankPayment_def Let_def split: option.splits if_splits prod.splits)

lemma tenant_by_account_house:
  "tenant_by_account d ref = Some (tn, Some hs) \<Longrightarrow> find_house d (Some (h_id hs)) = Some hs"
proof -
  assume "tenant_by_account d ref = Some (tn, Some hs)"
  then have "find_house d (t_house tn) = Some hs"
    by (auto simp: tenant_by_account_def split: option.splits)
  moreover from this have "t_house tn = Some (h_id hs)" by (rule find_house_id)
  ultimately show ?thesis by simp
qed

text \<open>
  C2, as stated, fails for a record created by posting a payment on the pay-bill channel.
  February 2024 closed with a deficit of 400 for tenant 7 and house 1, whose rent is 1200. A
  pay-bill payment of 1200 in March is recorded with success, and the record it creates for
  March has no expected amount, where the claim calls for 1600; it is stored as paid.
\<close>

theorem paybill_record_without_expected_amount:
  "in_period 7 1 2 2024 ex_february \<and> deficit ex_february = Some 400 \<and>
   successful (fst (paybill (ex_clock ex_now) ex_db (ex_paybill (Some 1200)) [ex_february])) \<and>
   map month (snd (paybill (ex_clock ex_now) ex_db (ex_paybill (Some 1200)) [ex_february]))
     = [Some 2, Some 3] \<and>
   map tenant (snd (paybill (ex_clock ex_now) ex_db (ex_paybill (Some 1200)) [ex_february]))
     = [Some 7, Some 7] \<and>
   map expectedAmount (snd (paybill (ex_clock ex_now) ex_db (ex_paybill (Some 1200))
     [ex_february])) = [Some 1200, None] \<and>
   map status (snd (paybill (ex_clock ex_now) ex_db (ex_paybill (Some 1200)) [ex_february]))
     = [Partial, Paid]"
  by (simp add: channel_defs ledger_defs ex_defs)

text \<open>
  C2 (amended): let \<open>(m, y)\<close> be a canonical period (a month from 1 to 12, a four-digit year)
  and \<open>(m', y')\<close> the period after it. If the most recently created record of tenant \<open>t\<close> and
  house \<open>h\<close> for \<open>(m, y)\<close> has a deficit \<open>D > 0\<close>, then every record for \<open>t\<close>, \<open>h\<close> and \<open>(m', y')\<close>
  that \<^verbatim>\<open>POST /\<close>, the monthly rent generator or the bank webhook creates has the
  carried-forward amount \<open>D\<close> and the expected amount rent + \<open>D\<close>. The preceding period of
  \<open>(m', y')\<close>, as the code computes it, is \<open>(m, y)\<close>: for January, month 0 rolls to month 12 of
  the year before.
\<close>

theorem carry_forward_correct:
  assumes period: "1 \<le> m" "m \<le> 12" "1000 \<le> y" "y \<le> 9999"
    and nxt: "m' = (if m = 12 then 1 else m + 1)" "y' = (if m = 12 then y + 1 else y)"
    and store: "pays = before @ prev # after" "in_period t h m y prev"
      "\<forall>q\<in>set after. \<not> in_period t h m y q"
    and D: "deficit prev = Some D" "0 < D"
    and new: "(\<exists>r. create_payment clk d creq pays = (r, pays @ [p])) \<or>
      (\<exists>res new. generate_monthly_rent clk d greq pays = (res, pays @ new) \<and> p \<in> set new) \<or>
      (\<exists>r out. bank_webhook clk d breq pays = (r, out, pays @ [p]))"
    and p: "in_period t h m' y' p"
  shows "prev_period m' y' = (m, y) \<and>
    (\<exists>hs. find_house d (Some h) = Some hs \<and> carriedForward p = Some D \<and>
       expectedAmount p = Some (rentAmount hs + D))"
proof -
  have pp: "prev_period m' y' = (m, y)"
    using period nxt prev_of_next [of m y] by simp
  have c: "carried pays t h m' y' = D"
    using carried_latest [OF pp store(2,3) D] store(1) by simp
  have y0: "y' \<noteq> 0" using period nxt by auto
  from p have pf: "tenant p = Some t" "house p = Some h" "month p = Some m'" "year p = Some y'"
    by (simp_all add: in_period_def)
  from new have "\<exists>hs. find_house d (Some h) = Some hs \<and> carriedForward p = Some D \<and>
       expectedAmount p = Some (rentAmount hs + D)"
  proof (elim disjE)
    assume "\<exists>r. create_payment clk d creq pays = (r, pays @ [p])"
    then obtain req' hs where r: "find_house d (house p) = Some hs" "tenant p = cr_tenant req'"
      "month p = cr_month req'" "year p = cr_year req'"
      "carriedForward p = Some (create_carried pays req' hs)"
      "expectedAmount p = Some (rentAmount hs + create_carried pays req' hs)"
      using create_payment_record by blast
    from r(1) pf have hh: "h_id hs = h" using find_house_id by fastforce
    from r pf y0 hh have "create_carried pays req' hs = carried pays t h m' y'"
      by (simp add: create_carried_def split: option.splits)
    with r pf c show ?thesis by simp
  next
    assume "\<exists>res new. generate_monthly_rent clk d greq pays = (res, pays @ new) \<and> p \<in> set new"
    then obtain M Y pct grace tn hs where g: "find_house d (t_house tn) = Some hs"
      "p\<lparr>pid := 0\<rparr> = (generated_payment clk M Y pct grace pays tn hs)\<lparr>pid := 0\<rparr>"
      using generate_monthly_rent_records by blast
    note s = same_but_pid [OF g(2)]
    from s pf have ids: "t_id tn = t" "h_id hs = h" "M = m'" "Y = y'"
      by (simp_all add: generated_payment_fields)
    from g(1) ids have "find_house d (Some h) = Some hs" using find_house_id by fastforce
    moreover from s ids c have "carriedForward p = Some D"
      "expectedAmount p = Some (rentAmount hs + D)"
      by (simp_all add: generated_payment_fields)
    ultimately show ?thesis by blast
  next
    assume "\<exists>r out. bank_webhook clk d breq pays = (r, out, pays @ [p])"
    then obtain out where a: "processEquityBankPayment clk d breq pays = (out, pays @ [p])"
      by (auto simp: bank_webhook_def)
    then obtain p' where "out = Recorded p'" using bank_unrecorded by fastforce
    with a have a': "processEquityBankPayment clk d breq pays = (Recorded p', pays @ [p])"
      by simp
    from bank_recorded_ledger [OF a'] obtain ref hs tn mb yb where
      b: "tenant_by_account d ref = Some (tn, Some hs)" "pays @ [p] = pays @ [p']"
        "tenant p' = Some (t_id tn)" "house p' = Some (h_id hs)"
        "month p' = Some mb" "year p' = Some yb"
        "carriedForward p' = Some (carried pays (t_id tn) (h_id hs) mb yb)"
        "expectedAmount p' = Some (rentAmount hs + carried pays (t_id tn) (h_id hs) mb yb)"
      by blast
    from b(2) have same: "p' = p" by simp
    from b pf same have ids: "t_id tn = t" "h_id hs = h" "mb = m'" "yb = y'" by simp_all
    from tenant_by_account_house [OF b(1)] ids
    have "find_house d (Some h) = Some hs" by simp
    moreover from b(7,8) same ids c have "carriedForward p = Some D"
      "expectedAmount p = Some (rentAmount hs + D)"
      by simp_all
    ultimately show ?thesis by blast
  qed
  with pp show ?thesis by simp
qed

text \<open>Scenario B on each of the three entry points: February closed with a deficit of 400 on
  a rent of 1200; the generator run for March, a payment of 800 posted for March and a bank
  notification of 1200 in March each create a record with 400 carried forward and an
  expected amount of 1600.\<close>

theorem carry_forward_correct_witness:
  "1 \<le> (2::int) \<and> (2::int) \<le> 12 \<and> 1000 \<le> (2024::int) \<and> (2024::int) \<le> 9999 \<and>
   in_period 7 1 2 2024 ex_february \<and> deficit ex_february = Some 400 \<and>
   prev_period 3 2024 = (2, 2024) \<and>
   (let out = generate_monthly_rent (ex_clock ex_now) ex_db ex_generate [ex_february]
    in snd out = [ex_february] @ [last (snd out)] \<and>
       in_period 7 1 3 2024 (last (snd out)) \<and>
       carriedForward (last (snd out)) = Some 400 \<and>
       expectedAmount (last (snd out)) = Some 1600) \<and>
   (let out = create_payment (ex_clock ex_now) ex_db (ex_create 1 (Some 800)) [ex_february]
    in snd out = [ex_february] @ [last (snd out)] \<and>
       in_period 7 1 3 2024 (last (snd out)) \<and>
       carriedForward (last (snd out)) = Some 400 \<and>
       expectedAmount (last (snd out)) = Some 1600) \<and>
   (let out = bank_webhook (ex_clock ex_now) ex_db (ex_bank (Some 1200)) [ex_february]
    in snd (snd out) = [ex_february] @ [last (snd (snd out))] \<and>
       in_period 7 1 3 2024 (last (snd (snd out))) \<and>
       carriedForward (last (snd (snd out))) = Some 400 \<and>
       expectedAmount (last (snd (snd out))) = Some 1600)"
proof -
  let ?c = "ex_clock ex_now"
  let ?g = "generate_monthly_rent ?c ex_db ex_generate [ex_february]"
  let ?p = "create_payment ?c ex_db (ex_create 1 (Some 800)) [ex_february]"
  let ?b = "bank_webhook ?c ex_db (ex_bank (Some 1200)) [ex_february]"
  have h: "1 \<le> (2::int)" "(2::int) \<le> 12" "1000 \<le> (2024::int)" "(2024::int) \<le> 9999"
    "(3::int) = (if (2::int) = 12 then 1 else 2 + 1)"
    "(2024::int) = (if (2::int) = 12 then 2024 + 1 else 2024)"
    "[ex_february] = [] @ ex_february # []" "in_period 7 1 2 2024 ex_february"
    "\<forall>q\<in>set []. \<not> in_period 7 1 2 2024 q" "deficit ex_february = Some 400" "(0::rat) < 400"
    by (simp_all add: ledger_defs ex_defs)
  have g0: "prev_period 3 2024 = (2, 2024)" by (simp add: prev_period_def)
  have g1: "let out = ?g
    in snd out = [ex_february] @ [last (snd out)] \<and>
       in_period 7 1 3 2024 (last (snd out)) \<and>
       carriedForward (last (snd out)) = Some 400 \<and>
       expectedAmount (last (snd out)) = Some 1600"
    by (simp add: generate_monthly_rent_def generate_step_def generated_payment_def
        add_days_def ledger_defs ex_defs)
  have g2: "let out = ?p
    in snd out = [ex_february] @ [last (snd out)] \<and>
       in_period 7 1 3 2024 (last (snd out)) \<and>
       carriedForward (last (snd out)) = Some 400 \<and>
       expectedAmount (last (snd out)) = Some 1600"
    by (simp add: ledger_defs ex_defs)
  have g3: "let out = ?b
    in snd (snd out) = [ex_february] @ [last (snd (snd out))] \<and>
       in_period 7 1 3 2024 (last (snd (snd out))) \<and>
       carriedForward (last (snd (snd out))) = Some 400 \<and>
       expectedAmount (last (snd (snd out))) = Some 1600"
    by (simp add: channel_defs ledger_defs ex_defs)
  from g1 have n1: "(\<exists>r. create_payment ?c ex_db (ex_create 1 (Some 800)) [ex_february]
        = (r, [ex_february] @ [last (snd ?g)])) \<or>
      (\<exists>res new. generate_monthly_rent ?c ex_db ex_generate [ex_february]
        = (res, [ex_february] @ new) \<and> last (snd ?g) \<in> set new) \<or>
      (\<exists>r out. bank_webhook ?c ex_db (ex_bank (Some 1200)) [ex_february]
        = (r, out, [ex_february] @ [last (snd ?g)]))"
    by (intro disjI2 disjI1 exI [of _ "fst ?g"] exI [of _ "[last (snd ?g)]"])
      (simp add: Let_def prod_eq_iff)
  from g2 have n2: "(\<exists>r. create_payment ?c ex_db (ex_create 1 (Some 800)) [ex_february]
        = (r, [ex_february] @ [last (snd ?p)])) \<or>
      (\<exists>res new. generate_monthly_rent ?c ex_db ex_generate [ex_february]
        = (res, [ex_february] @ new) \<and> last (snd ?p) \<in> set new) \<or>
      (\<exists>r out. bank_webhook ?c ex_db (ex_bank (Some 1200)) [ex_february]
        = (r, out, [ex_february] @ [last (snd ?p)]))"
    by (intro disjI1 exI [of _ "fst ?p"]) (simp add: Let_def prod_eq_iff)
  from g3 have n3: "(\<exists>r. create_payment ?c ex_db (ex_create 1 (Some 800)) [ex_february]
        = (r, [ex_february] @ [last (snd (snd ?b))])) \<or>
      (\<exists>res new. generate_monthly_rent ?c ex_db ex_generate [ex_february]
        = (res, [ex_february] @ new) \<and> last (snd (snd ?b)) \<in> set new) \<or>
      (\<exists>r out. bank_webhook ?c ex_db (ex_bank (Some 1200)) [ex_february]
        = (r, out, [ex_february] @ [last (snd (snd ?b))]))"
    by (intro disjI2 exI [of _ "fst ?b"] exI [of _ "fst (snd ?b)"])
      (simp add: Let_def prod_eq_iff)
  from g1 have i1: "in_period 7 1 3 2024 (last (snd ?g))" by (simp add: Let_def)
  from g2 have i2: "in_period 7 1 3 2024 (last (snd ?p))" by (simp add: Let_def)
  from g3 have i3: "in_period 7 1 3 2024 (last (snd (snd ?b)))" by (simp add: Let_def)
  note t1 = carry_forward_correct [OF h n1 i1]
  note t2 = carry_forward_correct [OF h n2 i2]
  note t3 = carry_forward_correct [OF h n3 i3]
  show ?thesis using t1 t2 t3 by - (intro conjI h(1-4,8,10) g0 g1 g2 g3)
qed

section \<open>STK push callback\<close>

lemma update_first_clears:
  assumes "filter q pays = [p0]" "\<not> q (f p0)"
  shows "filter q (update_first q f pays) = []"
  using assms
proof (induction pays)
  case Nil
  then show ?case by simp
next
  case (Cons x xs)
  then show ?case by (cases "q x") auto
qed

lemma findOne_single: "filter q pays = [p0] \<Longrightarrow> findOne q pays = Some p0"
proof (induction pays)
  case Nil
  then show ?case by simp
next
  case (Cons x xs)
  then show ?case by (cases "q x") (auto simp: findOne_def)
qed

lemma findOne_none: "filter q pays = [] \<Longrightarrow> findOne q pays = None"
  by (simp add: findOne_def find_None_iff filter_empty_conv)

text \<open>
  C4, as stated, fails: after the successful callback has stored the provider receipt id as
  the transaction identifier, the replayed callback finds no record under the correlation id
  and is answered with HTTP 404.
\<close>

theorem replayed_callback_is_not_found:
  "fst (stk_callback ex_callback [ex_stk])
     = (reply 200 PaymentProcessed)\<lparr>r_resultCode := Some 0\<rparr> \<and>
   map status (snd (stk_callback ex_callback [ex_stk])) = [Paid] \<and>
   map transactionId (snd (stk_callback ex_callback [ex_stk])) = [Some ''QGH7XK''] \<and>
   stk_callback ex_callback (snd (stk_callback ex_callback [ex_stk]))
     = (reply 404 PaymentNotFound, snd (stk_callback ex_callback [ex_stk])) \<and>
   \<not> successful (reply 404 PaymentNotFound)"
  by (simp add: channel_defs ledger_defs ex_defs)

text \<open>
  C4 (amended): a callback whose correlation id is on no record is answered with HTTP 404
  and changes nothing. When the correlation id is on exactly one record and the callback
  reports success with a provider receipt id other than the correlation id, the record
  becomes paid with the receipt id as its transaction identifier and reference number; the
  replayed callback then finds no record, is answered with HTTP 404 and leaves the
  collection unchanged.
\<close>

theorem callback_replay_not_found:
  "(findOne (\<lambda>p. transactionId p = Some (CheckoutRequestID req)) pays = None \<longrightarrow>
      stk_callback req pays = (reply 404 PaymentNotFound, pays)) \<and>
   (filter (\<lambda>p. transactionId p = Some (CheckoutRequestID req)) pays = [p0] \<and>
    ResultCode req = 0 \<and> cb_metadata req = Some (Some receipt) \<and> receipt \<noteq> [] \<and>
    receipt \<noteq> CheckoutRequestID req \<longrightarrow>
      (\<exists>pays'. stk_callback req pays
           = ((reply 200 PaymentProcessed)\<lparr>r_resultCode := Some 0\<rparr>, pays') \<and>
         pays' = update_first (\<lambda>p. transactionId p = Some (CheckoutRequestID req))
           (\<lambda>p. p\<lparr>status := Paid, referenceNumber := Some receipt,
                   transactionId := Some receipt\<rparr>) pays \<and>
         stk_callback req pays' = (reply 404 PaymentNotFound, pays')))"
proof (intro conjI impI)
  assume "findOne (\<lambda>p. transactionId p = Some (CheckoutRequestID req)) pays = None"
  then show "stk_callback req pays = (reply 404 PaymentNotFound, pays)"
    by (simp add: stk_callback_def)
next
  let ?q = "\<lambda>p. transactionId p = Some (CheckoutRequestID req)"
  let ?f = "\<lambda>p. p\<lparr>status := Paid, referenceNumber := Some receipt,
                   transactionId := Some receipt\<rparr>"
  assume a: "filter ?q pays = [p0] \<and>
    ResultCode req = 0 \<and> cb_metadata req = Some (Some receipt) \<and> receipt \<noteq> [] \<and>
    receipt \<noteq> CheckoutRequestID req"
  then have found: "findOne ?q pays = Some p0" using findOne_single by fast
  from a have "\<not> ?q (?f p0)" by simp
  with a have "filter ?q (update_first ?q ?f pays) = []"
    using update_first_clears [of ?q pays p0 ?f] by blast
  then have gone: "findOne ?q (update_first ?q ?f pays) = None" by (rule findOne_none)
  have first: "stk_callback req pays
      = ((reply 200 PaymentProcessed)\<lparr>r_resultCode := Some 0\<rparr>, update_first ?q ?f pays)"
    using a found by (simp add: stk_callback_def or_str_def truthy_str_def)
  have second: "stk_callback req (update_first ?q ?f pays)
      = (reply 404 PaymentNotFound, update_first ?q ?f pays)"
    using gone by (simp add: stk_callback_def)
  from first second
  show "\<exists>pays'. stk_callback req pays
           = ((reply 200 PaymentProcessed)\<lparr>r_resultCode := Some 0\<rparr>, pays') \<and>
         pays' = update_first ?q ?f pays \<and>
         stk_callback req pays' = (reply 404 PaymentNotFound, pays')"
    by blast
qed

text \<open>Scenario C: the callback for the pending STK record, and a callback on an empty
  collection.\<close>

theorem callback_replay_not_found_witness:
  "findOne (\<lambda>p. transactionId p = Some (CheckoutRequestID ex_callback)) [] = None \<and>
   stk_callback ex_callback [] = (reply 404 PaymentNotFound, []) \<and>
   filter (\<lambda>p. transactionId p = Some (CheckoutRequestID ex_callback)) [ex_stk] = [ex_stk] \<and>
   ResultCode ex_callback = 0 \<and> cb_metadata ex_callback = Some (Some ''QGH7XK'') \<and>
   map status (snd (stk_callback ex_callback [ex_stk])) = [Paid] \<and>
   stk_callback ex_callback (snd (stk_callback ex_callback [ex_stk]))
     = (reply 404 PaymentNotFound, snd (stk_callback ex_callback [ex_stk]))"
proof -
  note t1 = callback_replay_not_found [where req = ex_callback and pays = "[]"
      and ?p0.0 = ex_stk and receipt = "''QGH7XK''"]
  note t2 = callback_replay_not_found [where req = ex_callback and pays = "[ex_stk]"
      and ?p0.0 = ex_stk and receipt = "''QGH7XK''"]
  have g: "findOne (\<lambda>p. transactionId p = Some (CheckoutRequestID ex_callback)) [] = None"
    "stk_callback ex_callback [] = (reply 404 PaymentNotFound, [])"
    "filter (\<lambda>p. transactionId p = Some (CheckoutRequestID ex_callback)) [ex_stk] = [ex_stk]"
    "ResultCode ex_callback = 0" "cb_metadata ex_callback = Some (Some ''QGH7XK'')"
    "map status (snd (stk_callback ex_callback [ex_stk])) = [Paid]"
    "stk_callback ex_callback (snd (stk_callback ex_callback [ex_stk]))
       = (reply 404 PaymentNotFound, snd (stk_callback ex_callback [ex_stk]))"
    by (simp_all add: channel_defs ledger_defs ex_defs)
  show ?thesis using t1 t2 by - (intro conjI g)
qed

end
